theory Spec2Isabelle
  imports Main "HOL-Library.Word"
begin

unbundle bit_operations_syntax

section \<open>Go values\<close>

text \<open>
  A Go string is a sequence of bytes: \<^typ>\<open>string\<close>.  A Go slice can be \<open>nil\<close>, which is not
  the same value as an empty slice (\<open>env == nil\<close> in \<open>execProcess\<close> tells them apart), so a
  slice is an optional list: \<open>None\<close> is the nil slice, \<open>Some []\<close> an empty one.
  \<open>len\<close> is zero for both.
\<close>

type_synonym 'a slice = "'a list option"

definition elems :: "'a slice \<Rightarrow> 'a list" where
  "elems s = (case s of None \<Rightarrow> [] | Some xs \<Rightarrow> xs)"

definition len :: "'a slice \<Rightarrow> nat" where
  "len s = length (elems s)"

section \<open>internal/util: errors\<close>

text \<open>
  What a failed call of the operating system (or of Go's \<open>os\<close>, \<open>os/exec\<close> and \<open>syscall\<close>
  packages) reports: an error number, or for \<open>cmd.Wait\<close> the status of a child that did not
  exit with code zero.
\<close>

datatype errno = ENOENT | EPERM | EACCES | EEXIST | EINVAL | EBUSY | ENOTDIR | EIO | ECHILD

datatype oserr = Errno errno | ExitError "32 word"

text \<open>
  \<open>filepath.Join\<close> belongs to Go's library and is kept symbolic: \<open>Join p name\<close> stands for
  \<open>filepath.Join(p, name)\<close>, \<open>P s\<close> for the path written \<open>s\<close>.
\<close>

datatype fpath = P string | Join fpath string

text \<open>
  Go's \<open>error\<close> interface is \<^typ>\<open>'a option\<close> over the values below: \<open>None\<close> is \<open>nil\<close>.
  \<open>ContainerError\<close> is the struct of \<open>errors.go\<close> with its fields \<open>Op\<close>, \<open>Path\<close>, \<open>Err\<close>;
  \<open>ErrorString\<close> is what \<open>errors.New\<close> and a \<open>fmt.Errorf\<close> without verbs build;
  \<open>Wrapped op e\<close> is \<open>fmt.Errorf("%s: %w", op, e)\<close>.
\<close>

datatype error =
    OSError oserr
  | ErrorString string
  | ContainerError string fpath "error option"
  | Wrapped string error

definition NewError :: "string \<Rightarrow> error option \<Rightarrow> error option" where
  "NewError op err = Some (ContainerError op (P []) err)"

definition NewSimpleError :: "string \<Rightarrow> string \<Rightarrow> error option" where
  "NewSimpleError op message = Some (ContainerError op (P []) (Some (ErrorString message)))"

definition NewPathError :: "string \<Rightarrow> fpath \<Rightarrow> error option \<Rightarrow> error option" where
  "NewPathError op path err = Some (ContainerError op path err)"

definition WrapError :: "string \<Rightarrow> error option \<Rightarrow> error option" where
  "WrapError op err = (case err of None \<Rightarrow> None | Some e \<Rightarrow> Some (Wrapped op e))"

text \<open>\<open>os.IsNotExist\<close>: true for the error of a system call that reported \<open>ENOENT\<close>.\<close>

definition IsNotExist :: "error option \<Rightarrow> bool" where
  "IsNotExist err = (err = Some (OSError (Errno ENOENT)))"

section \<open>The host\<close>

text \<open>
  Every call that leaves the program (a system call, a call of Go's \<open>os\<close> package, a line
  written to standard error) is an event, and the events of a run form its trace, in order.
  \<open>stderr_Fprintf fmt err\<close> is \<open>fmt.Fprintf(os.Stderr, fmt, err)\<close>.  File modes are the
  numbers of the source (\<open>0755\<close> is 493, \<open>0644\<close> is 420).
\<close>

record Cmd =
  cmd_Path :: string
  cmd_Args :: "string list"
  cmd_Env :: "string list"
  cmd_Cloneflags :: "64 word"

datatype event =
    os_Stat fpath
  | os_MkdirAll fpath nat
  | os_RemoveAll fpath
  | os_WriteFile fpath string nat
  | os_ReadFile fpath
  | os_Chdir string
  | os_Pipe
  | file_Close string
  | unix_PivotRoot fpath fpath
  | unix_Chdir fpath
  | unix_Unmount fpath nat
  | unix_Chroot fpath
  | unix_Mount string string string nat string
  | cmd_Start Cmd
  | cmd_Wait
  | syscall_Exec string "string slice" "string slice"
  | syscall_Wait4 int int
  | stderr_Fprintf string "error option"

text \<open>
  The host decides the outcome of every call, and may let it depend on all that happened
  before: \<open>fails h tr c\<close> is the error of call \<open>c\<close> made after the trace \<open>tr\<close> (\<open>None\<close>: it
  succeeds), \<open>file_contents\<close> is what a successful \<open>os.ReadFile\<close> returns, \<open>child_pid\<close> the
  process id of a started command, \<open>child_status\<close> the status \<open>Wait4\<close> stores, \<open>environ\<close>
  the result of \<open>os.Environ()\<close>.
\<close>

record host =
  fails :: "event list \<Rightarrow> event \<Rightarrow> oserr option"
  file_contents :: "event list \<Rightarrow> fpath \<Rightarrow> string"
  child_pid :: "event list \<Rightarrow> int"
  child_status :: "event list \<Rightarrow> int \<Rightarrow> 32 word"
  environ :: "string list"

definition call :: "host \<Rightarrow> event \<Rightarrow> event list \<Rightarrow> error option \<times> event list" where
  "call h c tr = (map_option OSError (fails h tr c), tr @ [c])"

definition newline :: string where
  "newline = [CHR 0x0A]"

section \<open>internal/ns: namespaces\<close>

subsection \<open>CloneFlags\<close>

record NamespaceConfig =
  UTS :: bool
  PID :: bool
  Mount :: bool
  IPC :: bool
  Net :: bool
  User :: bool

text \<open>
  The flag constants come from \<open>golang.org/x/sys/unix\<close>; these are their Linux values.
  \<open>uintptr\<close> is 64 bits wide on the 64-bit Linux targets.
\<close>

type_synonym uintptr = "64 word"

definition CLONE_NEWNS :: uintptr where "CLONE_NEWNS = 0x00020000"
definition CLONE_NEWUTS :: uintptr where "CLONE_NEWUTS = 0x04000000"
definition CLONE_NEWIPC :: uintptr where "CLONE_NEWIPC = 0x08000000"
definition CLONE_NEWUSER :: uintptr where "CLONE_NEWUSER = 0x10000000"
definition CLONE_NEWPID :: uintptr where "CLONE_NEWPID = 0x20000000"
definition CLONE_NEWNET :: uintptr where "CLONE_NEWNET = 0x40000000"

text \<open>The six \<open>if\<close> statements of \<open>CloneFlags\<close>, in the order of the source.\<close>

definition CloneFlags :: "NamespaceConfig \<Rightarrow> uintptr" where
  "CloneFlags nc =
    (let flags = 0;
         flags = (if UTS nc then flags OR CLONE_NEWUTS else flags);
         flags = (if PID nc then flags OR CLONE_NEWPID else flags);
         flags = (if Mount nc then flags OR CLONE_NEWNS else flags);
         flags = (if IPC nc then flags OR CLONE_NEWIPC else flags);
         flags = (if Net nc then flags OR CLONE_NEWNET else flags);
         flags = (if User nc then flags OR CLONE_NEWUSER else flags)
     in flags)"

text \<open>
  The members of a namespace set, to speak about the order in which they are considered:
  \<open>apply_member nc m\<close> is the \<open>if\<close> statement of member \<open>m\<close>, and \<open>fold (apply_member nc) ms 0\<close> runs
  the statements in the order \<open>ms\<close>.
\<close>

datatype NamespaceType = NsUTS | NsPID | NsMOUNT | NsIPC | NsNET | NsUSER

fun enabled :: "NamespaceConfig \<Rightarrow> NamespaceType \<Rightarrow> bool" where
  "enabled nc NsUTS = UTS nc"
| "enabled nc NsPID = PID nc"
| "enabled nc NsMOUNT = Mount nc"
| "enabled nc NsIPC = IPC nc"
| "enabled nc NsNET = Net nc"
| "enabled nc NsUSER = User nc"

fun flag_of :: "NamespaceType \<Rightarrow> uintptr" where
  "flag_of NsUTS = CLONE_NEWUTS"
| "flag_of NsPID = CLONE_NEWPID"
| "flag_of NsMOUNT = CLONE_NEWNS"
| "flag_of NsIPC = CLONE_NEWIPC"
| "flag_of NsNET = CLONE_NEWNET"
| "flag_of NsUSER = CLONE_NEWUSER"

definition apply_member :: "NamespaceConfig \<Rightarrow> NamespaceType \<Rightarrow> uintptr \<Rightarrow> uintptr" where
  "apply_member nc m flags = (if enabled nc m then flags OR flag_of m else flags)"

text \<open>The flags of the enabled members among a set \<open>S\<close> of members.\<close>

definition flags_in :: "NamespaceConfig \<Rightarrow> NamespaceType set \<Rightarrow> uintptr" where
  "flags_in nc S =
     (if NsUTS \<in> S \<and> UTS nc then CLONE_NEWUTS else 0) OR
     (if NsPID \<in> S \<and> PID nc then CLONE_NEWPID else 0) OR
     (if NsMOUNT \<in> S \<and> Mount nc then CLONE_NEWNS else 0) OR
     (if NsIPC \<in> S \<and> IPC nc then CLONE_NEWIPC else 0) OR
     (if NsNET \<in> S \<and> Net nc then CLONE_NEWNET else 0) OR
     (if NsUSER \<in> S \<and> User nc then CLONE_NEWUSER else 0)"

definition all_namespace_flags :: uintptr where
  "all_namespace_flags =
     CLONE_NEWUTS OR CLONE_NEWPID OR CLONE_NEWNS OR CLONE_NEWIPC OR CLONE_NEWNET OR CLONE_NEWUSER"

subsection \<open>WaitForChild\<close>

text \<open>
  \<open>syscall.WaitStatus\<close> is a \<open>uint32\<close> on Linux; its methods are those of Go's \<open>syscall\<close>
  package: the low seven bits are zero for a normal exit, \<open>0x7F\<close> for a stopped child and the
  signal number otherwise; the exit code is the second byte.
\<close>

type_synonym WaitStatus = "32 word"

definition Exited :: "WaitStatus \<Rightarrow> bool" where
  "Exited w = (w AND 0x7F = 0x00)"

definition Signaled :: "WaitStatus \<Rightarrow> bool" where
  "Signaled w = (w AND 0x7F \<noteq> 0x7F \<and> w AND 0x7F \<noteq> 0x00)"

definition ExitStatus :: "WaitStatus \<Rightarrow> int" where
  "ExitStatus w = (if \<not> Exited w then - 1 else uint (drop_bit 8 w) AND 0xFF)"

definition Signal :: "WaitStatus \<Rightarrow> int" where
  "Signal w = (if \<not> Signaled w then - 1 else uint (w AND 0x7F))"

text \<open>
  \<open>WaitForChild\<close> returns the pair \<open>(int, error)\<close>.  \<open>Wait4\<close> is called with options 0; when
  it succeeds, \<open>status\<close> holds what the host stored.
\<close>

definition WaitForChild :: "host \<Rightarrow> int \<Rightarrow> event list \<Rightarrow> (int \<times> error option) \<times> event list" where
  "WaitForChild h pid tr =
    (let status = child_status h tr pid;
         (err, tr) = call h (syscall_Wait4 pid 0) tr
     in if err \<noteq> None then ((- 1, NewError ''wait for child'' err), tr)
        else if Exited status then ((ExitStatus status, None), tr)
        else if Signaled status then ((128 + Signal status, None), tr)
        else ((- 1, NewSimpleError ''wait for child'' ''unexpected child status''), tr))"

text \<open>
  How Linux packs a wait status: a child that exits with code \<open>c\<close> has the status
  \<open>c << 8\<close>; a child killed by signal \<open>s\<close> has the status \<open>s\<close>, with bit \<open>0x80\<close> set when it
  dumped core.
\<close>

definition status_of_exit :: "8 word \<Rightarrow> WaitStatus" where
  "status_of_exit c = push_bit 8 (ucast c)"

definition status_of_signal :: "nat \<Rightarrow> bool \<Rightarrow> WaitStatus" where
  "status_of_signal s core = (if core then of_nat s OR 0x80 else of_nat s)"

section \<open>internal/fs: the root filesystem\<close>

record RootfsManager =
  RootfsPath :: string
  Readonly :: bool

definition MNT_DETACH :: nat where
  "MNT_DETACH = 2"

definition PrepareRootfs :: "host \<Rightarrow> RootfsManager \<Rightarrow> event list \<Rightarrow> error option \<times> event list" where
  "PrepareRootfs h rm tr =
    (let (err, tr) = call h (os_Stat (P (RootfsPath rm))) tr
     in if IsNotExist err
        then (NewPathError ''prepare rootfs'' (P (RootfsPath rm))
                (Some (ErrorString ''rootfs path does not exist'')), tr)
        else
          let oldRootPath = Join (P (RootfsPath rm)) ''.old_root'';
              (err, tr) = call h (os_MkdirAll oldRootPath 493) tr
          in if err \<noteq> None then (NewPathError ''create old_root'' oldRootPath err, tr)
             else (None, tr))"

definition PivotRoot :: "host \<Rightarrow> RootfsManager \<Rightarrow> event list \<Rightarrow> error option \<times> event list" where
  "PivotRoot h rm tr =
    (let oldRootPath = Join (P (RootfsPath rm)) ''.old_root'';
         (err, tr) = call h (unix_PivotRoot (P (RootfsPath rm)) oldRootPath) tr
     in if err \<noteq> None then (NewError ''pivot_root'' err, tr)
        else
          let (err, tr) = call h (unix_Chdir (P ''/'')) tr
          in if err \<noteq> None then (NewError ''chdir to new root'' err, tr)
             else
               let (err, tr) = call h (unix_Unmount (P ''/.old_root'') MNT_DETACH) tr;
                   tr = (if err \<noteq> None
                         then tr @ [stderr_Fprintf (''Warning: failed to unmount old root: %v'' @ newline) err]
                         else tr);
                   (err, tr) = call h (os_RemoveAll (P ''/.old_root'')) tr;
                   tr = (if err \<noteq> None
                         then tr @ [stderr_Fprintf
                                (''Warning: failed to remove old root directory: %v'' @ newline) err]
                         else tr)
               in (None, tr))"

definition ChrootFallback :: "host \<Rightarrow> RootfsManager \<Rightarrow> event list \<Rightarrow> error option \<times> event list" where
  "ChrootFallback h rm tr =
    (let (err, tr) = call h (unix_Chdir (P (RootfsPath rm))) tr
     in if err \<noteq> None then (NewPathError ''chdir to rootfs'' (P (RootfsPath rm)) err, tr)
        else
          let (err, tr) = call h (unix_Chroot (P ''.'')) tr
          in if err \<noteq> None then (NewError ''chroot'' err, tr)
             else
               let (err, tr) = call h (unix_Chdir (P ''/'')) tr
               in if err \<noteq> None then (NewError ''chdir to / after chroot'' err, tr)
                  else (None, tr))"

definition SwitchRoot :: "host \<Rightarrow> RootfsManager \<Rightarrow> event list \<Rightarrow> error option \<times> event list" where
  "SwitchRoot h rm tr =
    (let (err, tr) = PrepareRootfs h rm tr
     in if err \<noteq> None then (WrapError ''prepare rootfs'' err, tr)
        else
          let (err, tr) = PivotRoot h rm tr
          in if err \<noteq> None
             then
               let tr = tr @ [stderr_Fprintf
                               (''pivot_root failed (%v), falling back to chroot'' @ newline) err];
                   (chrootErr, tr) = ChrootFallback h rm tr
               in if chrootErr \<noteq> None then (WrapError ''chroot fallback'' chrootErr, tr)
                  else (None, tr)
             else (None, tr))"

text \<open>
  The calls that change what the process sees as its filesystem: a mount or unmount, a
  \<open>pivot_root\<close>, a \<open>chroot\<close>, a change of directory; and the creation of a directory.
\<close>

fun is_root_switch_call :: "event \<Rightarrow> bool" where
  "is_root_switch_call (unix_PivotRoot a b) = True"
| "is_root_switch_call (unix_Chroot p) = True"
| "is_root_switch_call (unix_Unmount p f) = True"
| "is_root_switch_call (unix_Chdir p) = True"
| "is_root_switch_call (unix_Mount src dst t f d) = True"
| "is_root_switch_call (os_MkdirAll p m) = True"
| "is_root_switch_call (os_RemoveAll p) = True"
| "is_root_switch_call e = False"

section \<open>internal/cg: cgroups\<close>

record CgroupManager =
  CgroupPath :: string
  Controllers :: "string slice"

text \<open>
  The fields of \<open>ResourceLimits\<close> and \<open>ResourceStats\<close> are \<open>int64\<close> and \<open>int\<close>; the code
  compares them with zero and prints them, and never calculates with them, so they are
  integers here.
\<close>

record ResourceLimits =
  CPUQuota :: int
  CPUPeriod :: int
  Memory :: int
  Pids :: int

record ResourceStats =
  CPUUsage :: int
  MemoryUsage :: int
  PidsCount :: int

definition defaultCPUPeriod :: int where
  "defaultCPUPeriod = 100000"

subsection \<open>Printing integers\<close>

text \<open>
  \<open>strconv.FormatInt(i, 10)\<close>, \<open>strconv.Itoa(i)\<close> and the verb \<open>%d\<close> of \<open>fmt.Sprintf\<close> all print
  the decimal digits of \<open>i\<close>, after a minus sign when it is negative.
\<close>

definition digit_char :: "nat \<Rightarrow> char" where
  "digit_char d = char_of (48 + d)"

fun dec_digits :: "nat \<Rightarrow> string" where
  "dec_digits n = (if n < 10 then [digit_char n] else dec_digits (n div 10) @ [digit_char (n mod 10)])"

declare dec_digits.simps [simp del]

definition FormatInt :: "int \<Rightarrow> string" where
  "FormatInt i = (if i < 0 then ''-'' @ dec_digits (nat (- i)) else dec_digits (nat i))"

subsection \<open>ApplyLimits\<close>

definition setCPULimit ::
  "host \<Rightarrow> CgroupManager \<Rightarrow> int \<Rightarrow> int \<Rightarrow> event list \<Rightarrow> error option \<times> event list" where
  "setCPULimit h cm quota period tr =
    (let period = (if period = 0 then defaultCPUPeriod else period);
         cpuMaxPath = Join (P (CgroupPath cm)) ''cpu.max'';
         cpuMaxValue = FormatInt quota @ '' '' @ FormatInt period;
         (err, tr) = call h (os_WriteFile cpuMaxPath cpuMaxValue 420) tr
     in if err \<noteq> None then (NewPathError ''write cpu.max'' cpuMaxPath err, tr)
        else (None, tr))"

definition setMemoryLimit ::
  "host \<Rightarrow> CgroupManager \<Rightarrow> int \<Rightarrow> event list \<Rightarrow> error option \<times> event list" where
  "setMemoryLimit h cm limit tr =
    (let memoryMaxPath = Join (P (CgroupPath cm)) ''memory.max'';
         limitValue = FormatInt limit;
         (err, tr) = call h (os_WriteFile memoryMaxPath limitValue 420) tr
     in if err \<noteq> None then (NewPathError ''write memory.max'' memoryMaxPath err, tr)
        else (None, tr))"

definition setPidsLimit ::
  "host \<Rightarrow> CgroupManager \<Rightarrow> int \<Rightarrow> event list \<Rightarrow> error option \<times> event list" where
  "setPidsLimit h cm limit tr =
    (let pidsMaxPath = Join (P (CgroupPath cm)) ''pids.max'';
         limitValue = FormatInt limit;
         (err, tr) = call h (os_WriteFile pidsMaxPath limitValue 420) tr
     in if err \<noteq> None then (NewPathError ''write pids.max'' pidsMaxPath err, tr)
        else (None, tr))"

text \<open>
  Each of the three steps of \<open>ApplyLimits\<close> is skipped when its limit is not positive, and
  a failed step returns at once.
\<close>

definition ApplyLimits ::
  "host \<Rightarrow> CgroupManager \<Rightarrow> ResourceLimits \<Rightarrow> event list \<Rightarrow> error option \<times> event list" where
  "ApplyLimits h cm limits tr =
    (let (err, tr) = (if CPUQuota limits > 0
                      then setCPULimit h cm (CPUQuota limits) (CPUPeriod limits) tr
                      else (None, tr))
     in if err \<noteq> None then (WrapError ''set CPU limit'' err, tr)
        else
          let (err, tr) = (if Memory limits > 0
                           then setMemoryLimit h cm (Memory limits) tr
                           else (None, tr))
          in if err \<noteq> None then (WrapError ''set memory limit'' err, tr)
             else
               let (err, tr) = (if Pids limits > 0
                                then setPidsLimit h cm (Pids limits) tr
                                else (None, tr))
               in if err \<noteq> None then (WrapError ''set pids limit'' err, tr)
                  else (None, tr))"

text \<open>The three writes of \<open>ApplyLimits\<close>, as events.\<close>

definition cpu_write :: "CgroupManager \<Rightarrow> ResourceLimits \<Rightarrow> event" where
  "cpu_write cm limits =
     os_WriteFile (Join (P (CgroupPath cm)) ''cpu.max'')
       (FormatInt (CPUQuota limits) @ '' '' @
        FormatInt (if CPUPeriod limits = 0 then 100000 else CPUPeriod limits)) 420"

definition memory_write :: "CgroupManager \<Rightarrow> ResourceLimits \<Rightarrow> event" where
  "memory_write cm limits =
     os_WriteFile (Join (P (CgroupPath cm)) ''memory.max'') (FormatInt (Memory limits)) 420"

definition pids_write :: "CgroupManager \<Rightarrow> ResourceLimits \<Rightarrow> event" where
  "pids_write cm limits =
     os_WriteFile (Join (P (CgroupPath cm)) ''pids.max'') (FormatInt (Pids limits)) 420"

subsection \<open>AddProcess and Cleanup\<close>

definition AddProcess ::
  "host \<Rightarrow> CgroupManager \<Rightarrow> int \<Rightarrow> event list \<Rightarrow> error option \<times> event list" where
  "AddProcess h cm pid tr =
    (let procsPath = Join (P (CgroupPath cm)) ''cgroup.procs'';
         pidValue = FormatInt pid;
         (err, tr) = call h (os_WriteFile procsPath pidValue 420) tr
     in if err \<noteq> None then (NewPathError ''write cgroup.procs'' procsPath err, tr)
        else (None, tr))"

definition Cleanup :: "host \<Rightarrow> CgroupManager \<Rightarrow> event list \<Rightarrow> error option \<times> event list" where
  "Cleanup h cm tr =
    (let (err, tr) = call h (os_RemoveAll (P (CgroupPath cm))) tr
     in if err \<noteq> None then (NewPathError ''remove cgroup'' (P (CgroupPath cm)) err, tr)
        else (None, tr))"

subsection \<open>GetStats\<close>

text \<open>
  \<open>strings.Fields\<close>, \<open>strings.TrimSpace\<close>, \<open>strconv.ParseInt\<close> and \<open>strconv.Atoi\<close> belong to
  Go's library (they follow Unicode's white space and Go's number syntax).  The readers
  take them as parameters, so what is proved of the readers holds whatever these four
  compute.  \<open>strings.Split(s, "\n")\<close> and \<open>strings.HasPrefix\<close> are written out.
\<close>

record golib =
  strings_Fields :: "string \<Rightarrow> string list"
  strings_TrimSpace :: "string \<Rightarrow> string"
  strconv_ParseInt :: "string \<Rightarrow> int \<Rightarrow> int \<Rightarrow> int \<times> error option"
  strconv_Atoi :: "string \<Rightarrow> int \<times> error option"

fun split_lines :: "string \<Rightarrow> string list" where
  "split_lines [] = [[]]"
| "split_lines (c # cs) =
     (if c = CHR 0x0A then [] # split_lines cs
      else (case split_lines cs of [] \<Rightarrow> [[c]] | l # ls \<Rightarrow> (c # l) # ls))"

definition HasPrefix :: "string \<Rightarrow> string \<Rightarrow> bool" where
  "HasPrefix s prefix = (length s \<ge> length prefix \<and> take (length prefix) s = prefix)"

text \<open>
  The loop of \<open>readCPUStat\<close> over the lines of \<open>cpu.stat\<close>: the first line that starts with
  \<open>usage_usec\<close>, has two fields and whose second field parses gives the result; when no
  line does, the result is 0.
\<close>

fun usage_usec_of :: "golib \<Rightarrow> string list \<Rightarrow> int" where
  "usage_usec_of L [] = 0"
| "usage_usec_of L (line # lines) =
     (if HasPrefix line ''usage_usec''
      then let fields = strings_Fields L line
           in if length fields \<ge> 2
              then let (usage, err) = strconv_ParseInt L (fields ! 1) 10 64
                   in if err = None then usage else usage_usec_of L lines
              else usage_usec_of L lines
      else usage_usec_of L lines)"

definition readCPUStat ::
  "host \<Rightarrow> golib \<Rightarrow> CgroupManager \<Rightarrow> event list \<Rightarrow> (int \<times> error option) \<times> event list" where
  "readCPUStat h L cm tr =
    (let cpuStatPath = Join (P (CgroupPath cm)) ''cpu.stat'';
         data = file_contents h tr cpuStatPath;
         (err, tr) = call h (os_ReadFile cpuStatPath) tr
     in if err \<noteq> None then ((0, err), tr)
        else ((usage_usec_of L (split_lines data), None), tr))"

definition readMemoryStat ::
  "host \<Rightarrow> golib \<Rightarrow> CgroupManager \<Rightarrow> event list \<Rightarrow> (int \<times> error option) \<times> event list" where
  "readMemoryStat h L cm tr =
    (let memoryCurrentPath = Join (P (CgroupPath cm)) ''memory.current'';
         data = file_contents h tr memoryCurrentPath;
         (err, tr) = call h (os_ReadFile memoryCurrentPath) tr
     in if err \<noteq> None then ((0, err), tr)
        else
          let (usage, err) = strconv_ParseInt L (strings_TrimSpace L data) 10 64
          in if err \<noteq> None then ((0, err), tr) else ((usage, None), tr))"

definition readPidsStat ::
  "host \<Rightarrow> golib \<Rightarrow> CgroupManager \<Rightarrow> event list \<Rightarrow> (int \<times> error option) \<times> event list" where
  "readPidsStat h L cm tr =
    (let pidsCurrentPath = Join (P (CgroupPath cm)) ''pids.current'';
         data = file_contents h tr pidsCurrentPath;
         (err, tr) = call h (os_ReadFile pidsCurrentPath) tr
     in if err \<noteq> None then ((0, err), tr)
        else
          let (count, err) = strconv_Atoi L (strings_TrimSpace L data)
          in if err \<noteq> None then ((0, err), tr) else ((count, None), tr))"

definition GetStats ::
  "host \<Rightarrow> golib \<Rightarrow> CgroupManager \<Rightarrow> event list \<Rightarrow> (ResourceStats \<times> error option) \<times> event list" where
  "GetStats h L cm tr =
    (let stats = \<lparr>CPUUsage = 0, MemoryUsage = 0, PidsCount = 0\<rparr>;
         ((cpuStat, err), tr) = readCPUStat h L cm tr;
         (stats, tr) =
           (if err \<noteq> None
            then (stats, tr @ [stderr_Fprintf (''Warning: failed to read CPU stats: %v'' @ newline) err])
            else (stats\<lparr>CPUUsage := cpuStat\<rparr>, tr));
         ((memStat, err), tr) = readMemoryStat h L cm tr;
         (stats, tr) =
           (if err \<noteq> None
            then (stats, tr @ [stderr_Fprintf (''Warning: failed to read memory stats: %v'' @ newline) err])
            else (stats\<lparr>MemoryUsage := memStat\<rparr>, tr));
         ((pidsStat, err), tr) = readPidsStat h L cm tr;
         (stats, tr) =
           (if err \<noteq> None
            then (stats, tr @ [stderr_Fprintf (''Warning: failed to read pids stats: %v'' @ newline) err])
            else (stats\<lparr>PidsCount := pidsStat\<rparr>, tr))
     in ((stats, None), tr))"

text \<open>
  The trace after one reader of \<open>GetStats\<close> returned \<open>r\<close>: a warning is written when the
  reader failed.
\<close>

definition warn :: "string \<Rightarrow> ((int \<times> error option) \<times> event list) \<Rightarrow> event list" where
  "warn fmt r = (if snd (fst r) \<noteq> None then snd r @ [stderr_Fprintf fmt (snd (fst r))] else snd r)"

section \<open>encoding/json: a list of strings\<close>

text \<open>
  \<open>runWithPIDNamespace\<close> passes the argument list to its child as the text
  \<open>json.Marshal\<close> gives for a \<open>[]string\<close>.  \<open>json.Marshal\<close> belongs to Go's library; what
  follows is what it does for a slice of strings.  A nil slice is \<open>null\<close>; any other slice
  is its elements between brackets, separated by commas.  An element is written between
  double quotes (\<open>appendString\<close>, with HTML escaping, the default): the ASCII characters
  other than \<open>"\<close>, \<open>\\<close>, \<open>&\<close>, \<open><\<close>, \<open>>\<close> and the control characters stand for themselves; a
  well-formed UTF-8 sequence is copied, except U+2028 and U+2029; a byte that starts no
  well-formed sequence is written \<open>\ufffd\<close>.

  \<open>DecodeRune\<close> and \<open>EncodeRune\<close> are those of Go's \<open>unicode/utf8\<close>: \<open>DecodeRune\<close> returns
  the first code point of a string and the number of bytes it takes, or \<open>(RuneError, 1)\<close>
  when the string starts with no well-formed sequence.  Masks and shifts are written with
  \<open>mod\<close>, \<open>div\<close> and multiplication.
\<close>

definition RuneError :: nat where
  "RuneError = 0xFFFD"

definition byte :: "char \<Rightarrow> nat" where
  "byte c = of_char c"

definition DecodeRune :: "string \<Rightarrow> nat \<times> nat" where
  "DecodeRune s =
    (case s of
       [] \<Rightarrow> (RuneError, 0)
     | c0 # rest \<Rightarrow>
        let b0 = byte c0 in
        if b0 < 0x80 then (b0, 1)
        else if b0 < 0xC2 \<or> 0xF4 < b0 then (RuneError, 1)
        else
          let sz = (if b0 < 0xE0 then 2 else if b0 < 0xF0 then 3 else 4 :: nat);
              lo = (if b0 = 0xE0 then 0xA0 else if b0 = 0xF0 then 0x90 else 0x80);
              hi = (if b0 = 0xED then 0x9F else if b0 = 0xF4 then 0x8F else 0xBF)
          in if length s < sz then (RuneError, 1)
             else
               let b1 = byte (s ! 1) in
               if b1 < lo \<or> hi < b1 then (RuneError, 1)
               else if sz \<le> 2 then ((b0 mod 0x20) * 0x40 + b1 mod 0x40, 2)
               else
                 let b2 = byte (s ! 2) in
                 if b2 < 0x80 \<or> 0xBF < b2 then (RuneError, 1)
                 else if sz \<le> 3
                 then ((b0 mod 0x10) * 0x1000 + (b1 mod 0x40) * 0x40 + b2 mod 0x40, 3)
                 else
                   let b3 = byte (s ! 3) in
                   if b3 < 0x80 \<or> 0xBF < b3 then (RuneError, 1)
                   else ((b0 mod 0x08) * 0x40000 + (b1 mod 0x40) * 0x1000 +
                         (b2 mod 0x40) * 0x40 + b3 mod 0x40, 4))"

definition EncodeRune :: "nat \<Rightarrow> string" where
  "EncodeRune r =
    (if r \<le> 0x7F then [char_of r]
     else if r \<le> 0x7FF then [char_of (0xC0 + r div 0x40), char_of (0x80 + r mod 0x40)]
     else if 0x10FFFF < r \<or> (0xD800 \<le> r \<and> r \<le> 0xDFFF)
     then [CHR 0xEF, CHR 0xBF, CHR 0xBD]
     else if r \<le> 0xFFFF
     then [char_of (0xE0 + r div 0x1000), char_of (0x80 + (r div 0x40) mod 0x40),
           char_of (0x80 + r mod 0x40)]
     else [char_of (0xF0 + r div 0x40000), char_of (0x80 + (r div 0x1000) mod 0x40),
           char_of (0x80 + (r div 0x40) mod 0x40), char_of (0x80 + r mod 0x40)])"

definition hex :: "nat \<Rightarrow> char" where
  "hex n = ''0123456789abcdef'' ! n"

definition htmlSafe :: "char \<Rightarrow> bool" where
  "htmlSafe c = (0x20 \<le> byte c \<and> byte c < 0x80 \<and>
     c \<noteq> CHR 0x22 \<and> c \<noteq> CHR 0x26 \<and> c \<noteq> CHR 0x3C \<and> c \<noteq> CHR 0x3E \<and> c \<noteq> CHR 0x5C)"

definition escapeByte :: "char \<Rightarrow> string" where
  "escapeByte c =
    (if c = CHR 0x5C \<or> c = CHR 0x22 then [CHR 0x5C, c]
     else if c = CHR 0x08 then [CHR 0x5C, CHR ''b'']
     else if c = CHR 0x0C then [CHR 0x5C, CHR ''f'']
     else if c = CHR 0x0A then [CHR 0x5C, CHR ''n'']
     else if c = CHR 0x0D then [CHR 0x5C, CHR ''r'']
     else if c = CHR 0x09 then [CHR 0x5C, CHR ''t'']
     else [CHR 0x5C, CHR ''u'', CHR ''0'', CHR ''0'', hex (byte c div 16), hex (byte c mod 16)])"

fun appendBody :: "string \<Rightarrow> string" where
  "appendBody [] = []"
| "appendBody (c # cs) =
    (if byte c < 0x80
     then (if htmlSafe c then c # appendBody cs else escapeByte c @ appendBody cs)
     else
       let (r, size) = DecodeRune (take 4 (c # cs)) in
       if r = RuneError \<and> size = 1
       then [CHR 0x5C, CHR ''u'', CHR ''f'', CHR ''f'', CHR ''f'', CHR ''d''] @ appendBody cs
       else if r = 0x2028 \<or> r = 0x2029
       then [CHR 0x5C, CHR ''u'', CHR ''2'', CHR ''0'', CHR ''2'', hex (r mod 16)] @
            appendBody (drop (size - 1) cs)
       else take size (c # cs) @ appendBody (drop (size - 1) cs))"


definition appendString :: "string \<Rightarrow> string" where
  "appendString src = [CHR 0x22] @ appendBody src @ [CHR 0x22]"

fun encodeElements :: "string list \<Rightarrow> string" where
  "encodeElements [] = []"
| "encodeElements [x] = appendString x"
| "encodeElements (x # y # ys) = appendString x @ '','' @ encodeElements (y # ys)"

definition json_Marshal :: "string slice \<Rightarrow> string \<times> error option" where
  "json_Marshal v =
    (case v of
       None \<Rightarrow> (''null'', None)
     | Some xs \<Rightarrow> (''['' @ encodeElements xs @ '']'', None))"

section \<open>internal/proc: the container process\<close>

record ContainerProcess =
  BundleDir :: string
  Hostname :: string
  Args :: "string slice"
  Env :: "string slice"
  WorkingDir :: string
  CgroupManager :: "CgroupManager option"
  ResourceLimits :: "ResourceLimits option"

text \<open>
  \<open>syscall.Exec\<close> does not return when it succeeds: the process image is replaced.  So
  \<open>execProcess\<close> either returns an error or ends as \<open>ImageReplaced\<close>.
\<close>

datatype exec_result = Returned "error option" | ImageReplaced

definition defaultEnv :: "string list" where
  "defaultEnv = [''PATH=/usr/local/sbin:/usr/local/bin:/usr/sbin:/usr/bin:/sbin:/bin'']"

definition execProcess :: "host \<Rightarrow> ContainerProcess \<Rightarrow> event list \<Rightarrow> exec_result \<times> event list" where
  "execProcess h cp tr =
    (if len (Args cp) = 0
     then (Returned (NewSimpleError ''exec process'' ''no command specified''), tr)
     else
       let env = Env cp;
           env = (if env = None then Some defaultEnv else env);
           binary = elems (Args cp) ! 0;
           args = Args cp;
           (err, tr) = call h (syscall_Exec binary args env) tr
       in if err \<noteq> None then (Returned (NewError ''exec process'' err), tr)
          else (ImageReplaced, tr))"


text \<open>The command \<open>runWithPIDNamespace\<close> builds: the runtime itself, with the sentinel
  argument, the namespace flags, and the state of the container in four variables.\<close>

definition containerInitCmd :: "host \<Rightarrow> ContainerProcess \<Rightarrow> NamespaceConfig \<Rightarrow> string \<Rightarrow> Cmd" where
  "containerInitCmd h cp nsConfig argsJSON =
     \<lparr>cmd_Path = ''/proc/self/exe'',
      cmd_Args = [''/proc/self/exe'', ''container-init''],
      cmd_Env = environ h @
        [''GOMINI_BUNDLE_DIR='' @ BundleDir cp,
         ''GOMINI_HOSTNAME='' @ Hostname cp,
         ''GOMINI_ARGS='' @ argsJSON,
         ''GOMINI_WORKING_DIR='' @ WorkingDir cp],
      cmd_Cloneflags = CloneFlags nsConfig\<rparr>"

definition runWithPIDNamespace ::
  "host \<Rightarrow> ContainerProcess \<Rightarrow> NamespaceConfig \<Rightarrow> event list \<Rightarrow> error option \<times> event list" where
  "runWithPIDNamespace h cp nsConfig tr =
    (let (err, tr) = call h os_Pipe tr
     in if err \<noteq> None then (NewError ''create pipe'' err, tr)
        else
          let (argsJSON, err) = json_Marshal (Args cp)
          in if err \<noteq> None then (NewError ''marshal args'' err, tr @ [file_Close ''r''])
             else
               let cmd = containerInitCmd h cp nsConfig argsJSON;
                   (err, tr) = call h (cmd_Start cmd) tr
               in if err \<noteq> None
                  then (NewError ''start container process'' err,
                        tr @ [file_Close ''w'', file_Close ''r''])
                  else
                    let tr = tr @ [file_Close ''w''];
                        tr = (case CgroupManager cp of
                                None \<Rightarrow> tr
                              | Some cm \<Rightarrow>
                                  let (err, tr) = AddProcess h cm (child_pid h tr) tr
                                  in if err \<noteq> None
                                     then tr @ [stderr_Fprintf
                                       (''Warning: failed to add process to cgroup: %v'' @ newline) err]
                                     else tr);
                        (err, tr) = call h cmd_Wait tr
                    in if err \<noteq> None
                       then
                         let tr = (case CgroupManager cp of
                                     None \<Rightarrow> tr
                                   | Some cm \<Rightarrow> snd (Cleanup h cm tr))
                         in (NewError ''wait for container process'' err, tr @ [file_Close ''r''])
                       else
                         let tr = (case CgroupManager cp of
                                     None \<Rightarrow> tr
                                   | Some cm \<Rightarrow>
                                       let (err, tr) = Cleanup h cm tr
                                       in if err \<noteq> None
                                          then tr @ [stderr_Fprintf
                                            (''Warning: failed to cleanup cgroup: %v'' @ newline) err]
                                          else tr)
                         in (None, tr @ [file_Close ''r'']))"


section \<open>cmd/gomini: the run command\<close>

text \<open>
  The choice of \<open>finalArgs\<close> in \<open>runCommand\<close>, from the value of the \<open>--cmd\<close> flag, the
  positional arguments that follow the flags, and \<open>config.Process.Args\<close> of the bundle.
\<close>

definition finalArgs :: "string \<Rightarrow> string slice \<Rightarrow> string slice \<Rightarrow> string slice" where
  "finalArgs cmd positionalArgs configArgs =
    (if cmd \<noteq> [] then Some [cmd]
     else if len positionalArgs > 0 then positionalArgs
     else configArgs)"

section \<open>Hosts and inputs of the examples\<close>

text \<open>A host where every call succeeds and a waited-for child has the status \<open>w\<close>.\<close>

definition host_status :: "32 word \<Rightarrow> host" where
  "host_status w = \<lparr>fails = (\<lambda>tr c. None), file_contents = (\<lambda>tr p. []), child_pid = (\<lambda>tr. 7),
     child_status = (\<lambda>tr pid. w), environ = []\<rparr>"

definition rootfs_example :: RootfsManager where
  "rootfs_example = \<lparr>RootfsPath = ''/bundle/rootfs'', Readonly = False\<rparr>"

definition host_pivot_fails :: host where
  "host_pivot_fails =
     \<lparr>fails = (\<lambda>tr c. case c of unix_PivotRoot a b \<Rightarrow> Some (Errno EINVAL) | _ \<Rightarrow> None),
      file_contents = (\<lambda>tr p. []), child_pid = (\<lambda>tr. 7), child_status = (\<lambda>tr pid. 0),
      environ = []\<rparr>"

definition host_no_rootfs :: host where
  "host_no_rootfs =
     \<lparr>fails = (\<lambda>tr c. case c of os_Stat p \<Rightarrow> Some (Errno ENOENT) | _ \<Rightarrow> None),
      file_contents = (\<lambda>tr p. []), child_pid = (\<lambda>tr. 7), child_status = (\<lambda>tr pid. 0),
      environ = []\<rparr>"

definition cgroup_example :: CgroupManager where
  "cgroup_example =
     \<lparr>CgroupPath = ''/sys/fs/cgroup/gomini/abc123'', Controllers = Some [''cpu'', ''memory'', ''pids'']\<rparr>"

text \<open>A host where \<open>cpu.stat\<close> cannot be read, and the other two files hold a number.\<close>

definition host_cpu_unreadable :: host where
  "host_cpu_unreadable =
     \<lparr>fails = (\<lambda>tr c. if c = os_ReadFile (Join (P ''/sys/fs/cgroup/gomini/abc123'') ''cpu.stat'')
                       then Some (Errno EACCES) else None),
      file_contents = (\<lambda>tr p. if p = Join (P ''/sys/fs/cgroup/gomini/abc123'') ''memory.current''
                               then ''4096'' @ newline else ''3'' @ newline),
      child_pid = (\<lambda>tr. 7), child_status = (\<lambda>tr pid. 0), environ = []\<rparr>"

text \<open>
  An instance of the four library functions for the examples; it reads ASCII white space
  and decimal numbers of 64 bits.
\<close>

definition ascii_space :: "char \<Rightarrow> bool" where
  "ascii_space c = (c = CHR 0x09 \<or> c = CHR 0x0A \<or> c = CHR 0x0B \<or> c = CHR 0x0C \<or> c = CHR 0x0D
                    \<or> c = CHR 0x20)"

fun fields_from :: "string \<Rightarrow> string \<Rightarrow> string list" where
  "fields_from cur [] = (if cur = [] then [] else [cur])"
| "fields_from cur (c # cs) =
     (if ascii_space c then (if cur = [] then fields_from [] cs else cur # fields_from [] cs)
      else fields_from (cur @ [c]) cs)"

fun parse_digits :: "nat \<Rightarrow> string \<Rightarrow> nat option" where
  "parse_digits acc [] = Some acc"
| "parse_digits acc (c # cs) =
     (if 48 \<le> (of_char c :: nat) \<and> (of_char c :: nat) \<le> 57
      then parse_digits (acc * 10 + (of_char c - 48)) cs else None)"

definition example_ParseInt :: "string \<Rightarrow> int \<Rightarrow> int \<Rightarrow> int \<times> error option" where
  "example_ParseInt s base bitSize =
    (let (neg, ds) = (case s of [] \<Rightarrow> (False, [])
                      | c # cs \<Rightarrow> if c = CHR ''-'' then (True, cs)
                                  else if c = CHR ''+'' then (False, cs) else (False, s))
     in if ds = [] then (0, Some (ErrorString ''invalid syntax''))
        else case parse_digits 0 ds of
               None \<Rightarrow> (0, Some (ErrorString ''invalid syntax''))
             | Some n \<Rightarrow>
                 if \<not> neg \<and> n \<ge> 2 ^ 63 then (2 ^ 63 - 1, Some (ErrorString ''value out of range''))
                 else if neg \<and> n > 2 ^ 63 then (- (2 ^ 63), Some (ErrorString ''value out of range''))
                 else (if neg then - int n else int n, None))"

definition example_lib :: golib where
  "example_lib =
     \<lparr>strings_Fields = fields_from [],
      strings_TrimSpace = (\<lambda>s. rev (dropWhile ascii_space (rev (dropWhile ascii_space s)))),
      strconv_ParseInt = example_ParseInt,
      strconv_Atoi = (\<lambda>s. example_ParseInt s 10 0)\<rparr>"

text \<open>A host where waiting for the child reports that it exited with code 1.\<close>

definition host_wait_fails :: host where
  "host_wait_fails =
     \<lparr>fails = (\<lambda>tr c. if c = cmd_Wait then Some (ExitError 0x100) else None),
      file_contents = (\<lambda>tr p. []), child_pid = (\<lambda>tr. 7), child_status = (\<lambda>tr pid. 0x100),
      environ = [''HOME=/root'']\<rparr>"

definition container_example :: ContainerProcess where
  "container_example =
     \<lparr>BundleDir = ''/bundle'', Hostname = ''mini1'',
      Args = Some [''sh'', ''-c'', ''echo hi there''], Env = Some [],
      WorkingDir = ''/'', CgroupManager = Some cgroup_example, ResourceLimits = None\<rparr>"

definition namespaces_example :: NamespaceConfig where
  "namespaces_example =
     \<lparr>UTS = True, PID = True, Mount = True, IPC = False, Net = False, User = False\<rparr>"

section \<open>Properties of internal/ns\<close>

subsection \<open>CloneFlags\<close>

lemmas clone_consts =
  CLONE_NEWNS_def CLONE_NEWUTS_def CLONE_NEWIPC_def CLONE_NEWUSER_def CLONE_NEWPID_def
  CLONE_NEWNET_def

lemma CloneFlags_or:
  "CloneFlags nc =
     (if UTS nc then CLONE_NEWUTS else 0) OR (if PID nc then CLONE_NEWPID else 0) OR
     (if Mount nc then CLONE_NEWNS else 0) OR (if IPC nc then CLONE_NEWIPC else 0) OR
     (if Net nc then CLONE_NEWNET else 0) OR (if User nc then CLONE_NEWUSER else 0)"
  by (simp add: CloneFlags_def Let_def ac_simps)

text \<open>Running the \<open>if\<close> statements of the members \<open>ms\<close> adds the flags of the enabled ones.\<close>

lemma fold_apply_member:
  "fold (apply_member nc) ms acc = acc OR flags_in nc (set ms)"
proof (induction ms arbitrary: acc)
  case Nil
  show ?case by (simp add: flags_in_def)
next
  case (Cons m ms)
  have "apply_member nc m acc OR flags_in nc (set ms) = acc OR flags_in nc (insert m (set ms))"
    by (cases m) (auto simp: apply_member_def flags_in_def ac_simps)
  then show ?case using Cons by simp
qed

lemma CloneFlags_and_flag:
  "CloneFlags nc AND flag_of m = (if enabled nc m then flag_of m else 0)"
  unfolding CloneFlags_or
  by (cases m) (simp_all add: clone_consts bit.conj_disj_distrib2)

lemma CloneFlags_within: "CloneFlags nc AND NOT all_namespace_flags = 0"
  unfolding CloneFlags_or all_namespace_flags_def
  by (simp add: clone_consts bit.conj_disj_distrib2)

text \<open>
  C4.  For every namespace configuration, \<open>CloneFlags\<close> is the bitwise OR of the flag
  constants of the enabled members: the flag of a member is set in the result exactly when
  the member is enabled, no bit outside the six flags is set, running the six \<open>if\<close>
  statements in any order (every member considered at least once) gives the same value,
  and the result is zero when all six booleans are false.
\<close>

theorem CloneFlags_is_union_of_enabled:
  "CloneFlags nc =
     (if UTS nc then CLONE_NEWUTS else 0) OR (if PID nc then CLONE_NEWPID else 0) OR
     (if Mount nc then CLONE_NEWNS else 0) OR (if IPC nc then CLONE_NEWIPC else 0) OR
     (if Net nc then CLONE_NEWNET else 0) OR (if User nc then CLONE_NEWUSER else 0)
   \<and> (\<forall>m. CloneFlags nc AND flag_of m = (if enabled nc m then flag_of m else 0))
   \<and> CloneFlags nc AND NOT all_namespace_flags = 0
   \<and> (\<forall>ms. set ms = UNIV \<longrightarrow> fold (apply_member nc) ms 0 = CloneFlags nc)
   \<and> CloneFlags \<lparr>UTS = False, PID = False, Mount = False, IPC = False, Net = False, User = False\<rparr> = 0"
proof -
  have "fold (apply_member nc) ms 0 = CloneFlags nc" if "set ms = UNIV" for ms
    using that by (simp add: fold_apply_member flags_in_def CloneFlags_or)
  moreover have
    "CloneFlags \<lparr>UTS = False, PID = False, Mount = False, IPC = False, Net = False, User = False\<rparr> = 0"
    by (simp add: CloneFlags_def)
  ultimately show ?thesis
    using CloneFlags_or CloneFlags_and_flag CloneFlags_within by blast
qed

theorem CloneFlags_is_union_of_enabled_witness:
  "set [NsUSER, NsNET, NsIPC, NsMOUNT, NsPID, NsUTS, NsIPC] = UNIV
   \<and> fold (apply_member \<lparr>UTS = True, PID = True, Mount = True, IPC = False, Net = False, User = False\<rparr>)
        [NsUSER, NsNET, NsIPC, NsMOUNT, NsPID, NsUTS, NsIPC] 0
      = CloneFlags \<lparr>UTS = True, PID = True, Mount = True, IPC = False, Net = False, User = False\<rparr>
   \<and> CloneFlags \<lparr>UTS = True, PID = True, Mount = True, IPC = False, Net = False, User = False\<rparr>
      = 0x24020000"
proof -
  have u: "set [NsUSER, NsNET, NsIPC, NsMOUNT, NsPID, NsUTS, NsIPC] = UNIV"
    by (auto intro: NamespaceType.exhaust)
  have v: "CloneFlags \<lparr>UTS = True, PID = True, Mount = True, IPC = False, Net = False, User = False\<rparr>
      = 0x24020000"
    by (simp add: CloneFlags_def clone_consts)
  show ?thesis
    using u v
      CloneFlags_is_union_of_enabled
        [of "\<lparr>UTS = True, PID = True, Mount = True, IPC = False, Net = False, User = False\<rparr>"]
    by blast
qed

subsection \<open>WaitForChild\<close>

lemma m7: "(0x7F :: 32 word) = mask 7" by (simp add: mask_eq_exp_minus_1)
lemma m8: "(0xFF :: int) = mask 8" by (simp add: mask_eq_exp_minus_1)

lemma ExitStatus_range: "Exited w \<Longrightarrow> 0 \<le> ExitStatus w \<and> ExitStatus w \<le> 255"
  by (simp add: ExitStatus_def AND_upper2)

lemma Exited_status_of_exit: "Exited (status_of_exit c)"
  unfolding Exited_def status_of_exit_def m7
  by (rule bit_word_eqI) (auto simp: bit_simps dest: bit_imp_le_length)

lemma ExitStatus_status_of_exit: "ExitStatus (status_of_exit c) = uint c"
proof -
  have "drop_bit 8 (push_bit 8 (ucast c :: 32 word)) = ucast c"
    by (rule bit_word_eqI) (auto simp: bit_simps dest: bit_imp_le_length)
  moreover have "uint (ucast c :: 32 word) AND 0xFF = uint c"
    unfolding m8
    by (rule bit_eqI) (auto simp: bit_simps dest: bit_imp_le_length)
  ultimately show ?thesis
    using Exited_status_of_exit [of c] by (simp add: ExitStatus_def status_of_exit_def)
qed

lemma low7:
  assumes "s < 128"
  shows "status_of_signal s core AND 0x7F = of_nat s"
proof -
  have "take_bit 7 s = s"
    using assms by (simp add: take_bit_nat_eq_self)
  then have a: "(of_nat s :: 32 word) AND mask 7 = of_nat s"
    by (metis take_bit_eq_mask take_bit_of_nat)
  have b: "(0x80 :: 32 word) AND 0x7F = 0"
    by simp
  show ?thesis
    using a b by (simp add: status_of_signal_def m7 bit.conj_disj_distrib2)
qed

lemma of_nat_32_inj: "s < 128 \<Longrightarrow> t < 128 \<Longrightarrow> (of_nat s :: 32 word) = of_nat t \<longleftrightarrow> s = t"
  by (simp add: word_of_nat_eq_iff take_bit_nat_eq_self)

lemma Signaled_status_of_signal:
  assumes "1 \<le> s" "s \<le> 126"
  shows "Signaled (status_of_signal s core) \<and> Signal (status_of_signal s core) = int s"
proof -
  have l: "status_of_signal s core AND 0x7F = of_nat s"
    using assms by (simp add: low7)
  have "(of_nat s :: 32 word) \<noteq> 127" "(of_nat s :: 32 word) \<noteq> 0"
    using assms of_nat_32_inj [of s 127] of_nat_32_inj [of s 0] by simp_all
  then have s: "Signaled (status_of_signal s core)"
    by (simp add: Signaled_def l)
  have "uint (of_nat s :: 32 word) = int s"
    using assms by (simp add: uint_nat unat_of_nat take_bit_nat_eq_self)
  then show ?thesis
    using s by (simp add: Signal_def l)
qed

lemma WaitForChild_cases:
  "fails h tr (syscall_Wait4 pid 0) = None \<Longrightarrow>
   fst (WaitForChild h pid tr) =
     (let w = child_status h tr pid
      in if Exited w then (ExitStatus w, None)
         else if Signaled w then (128 + Signal w, None)
         else (- 1, NewSimpleError ''wait for child'' ''unexpected child status''))"
  by (simp add: WaitForChild_def call_def Let_def)


text \<open>
  C3.  When \<open>Wait4\<close> succeeds, \<open>WaitForChild\<close> returns the exit code of a child that exited
  (a number from 0 to 255, equal to the code the child exited with), 128 plus the signal
  number of a child that a signal killed, and otherwise \<open>-1\<close> with the error
  "unexpected child status".
\<close>

theorem WaitForChild_translates_status:
  assumes "fails h tr (syscall_Wait4 pid 0) = None" and "child_status h tr pid = w"
  shows "(Exited w \<longrightarrow>
            fst (WaitForChild h pid tr) = (ExitStatus w, None) \<and> 0 \<le> ExitStatus w \<and> ExitStatus w \<le> 255)
       \<and> (Signaled w \<longrightarrow>
            fst (WaitForChild h pid tr) = (128 + Signal w, None) \<and> Signal w = uint (w AND 0x7F))
       \<and> (\<not> Exited w \<and> \<not> Signaled w \<longrightarrow>
            fst (WaitForChild h pid tr) =
              (- 1, NewSimpleError ''wait for child'' ''unexpected child status''))
       \<and> (\<forall>c. Exited (status_of_exit c) \<and> ExitStatus (status_of_exit c) = uint c)
       \<and> (\<forall>s core. 1 \<le> s \<and> s \<le> 126 \<longrightarrow>
            \<not> Exited (status_of_signal s core) \<and> Signaled (status_of_signal s core) \<and>
            128 + Signal (status_of_signal s core) = 128 + int s)"
proof -
  have ex: "Exited v \<Longrightarrow> \<not> Signaled v" for v
    by (simp add: Exited_def Signaled_def)
  have r: "fst (WaitForChild h pid tr) =
     (if Exited w then (ExitStatus w, None)
      else if Signaled w then (128 + Signal w, None)
      else (- 1, NewSimpleError ''wait for child'' ''unexpected child status''))"
    using WaitForChild_cases [OF assms(1)] assms(2) by (simp add: Let_def)
  have sg: "\<not> Exited (status_of_signal s core) \<and> Signaled (status_of_signal s core) \<and>
            128 + Signal (status_of_signal s core) = 128 + int s" if "1 \<le> s \<and> s \<le> 126" for s core
    using Signaled_status_of_signal [of s core] that ex by auto
  have c1: "Exited w \<longrightarrow>
      fst (WaitForChild h pid tr) = (ExitStatus w, None) \<and> 0 \<le> ExitStatus w \<and> ExitStatus w \<le> 255"
    using r ExitStatus_range [of w] by simp
  have c2: "Signaled w \<longrightarrow>
      fst (WaitForChild h pid tr) = (128 + Signal w, None) \<and> Signal w = uint (w AND 0x7F)"
    using r ex [of w] by (auto simp: Signal_def)
  have c3: "\<not> Exited w \<and> \<not> Signaled w \<longrightarrow>
      fst (WaitForChild h pid tr) = (- 1, NewSimpleError ''wait for child'' ''unexpected child status'')"
    using r by simp
  have c4: "\<forall>c. Exited (status_of_exit c) \<and> ExitStatus (status_of_exit c) = uint c"
    using Exited_status_of_exit ExitStatus_status_of_exit by simp
  have c5: "\<forall>s core. 1 \<le> s \<and> s \<le> 126 \<longrightarrow>
            \<not> Exited (status_of_signal s core) \<and> Signaled (status_of_signal s core) \<and>
            128 + Signal (status_of_signal s core) = 128 + int s"
    using sg by blast
  show ?thesis
    using c1 c2 c3 c4 c5 by blast
qed

theorem WaitForChild_translates_status_witness:
  "fst (WaitForChild (host_status 0) 7 []) = (0, None)
   \<and> fst (WaitForChild (host_status 0x2A00) 7 []) = (42, None)
   \<and> fst (WaitForChild (host_status 9) 7 []) = (137, None)
   \<and> fst (WaitForChild (host_status 0x137F) 7 []) =
        (- 1, NewSimpleError ''wait for child'' ''unexpected child status'')"
proof -
  have f: "fails (host_status w) [] (syscall_Wait4 7 0) = None" for w
    by (simp add: host_status_def)
  have s: "child_status (host_status w) [] 7 = w" for w
    by (simp add: host_status_def)
  have a: "Exited (0 :: 32 word)" "ExitStatus (0 :: 32 word) = 0"
    by (simp_all add: Exited_def ExitStatus_def)
  have b: "Exited (0x2A00 :: 32 word)" "ExitStatus (0x2A00 :: 32 word) = 42"
    by (simp_all add: Exited_def ExitStatus_def drop_bit_eq_div)
  have c: "Signaled (9 :: 32 word)" "Signal (9 :: 32 word) = 9"
    by (simp_all add: Signaled_def Signal_def)
  have d: "\<not> Exited (0x137F :: 32 word)" "\<not> Signaled (0x137F :: 32 word)"
    by (simp_all add: Exited_def Signaled_def)
  show ?thesis
    using WaitForChild_translates_status [of "host_status 0" "[]" 7 0]
      WaitForChild_translates_status [of "host_status 0x2A00" "[]" 7 "0x2A00"]
      WaitForChild_translates_status [of "host_status 9" "[]" 7 9]
      WaitForChild_translates_status [of "host_status 0x137F" "[]" 7 "0x137F"] a b c d
    by (simp add: f s)
qed


section \<open>Properties of internal/fs\<close>

lemma call_simps [simp]:
  "fst (call h c tr) = map_option OSError (fails h tr c)"
  "snd (call h c tr) = tr @ [c]"
  by (simp_all add: call_def)

lemma PrepareRootfs_extends: "\<exists>evs. snd (PrepareRootfs h rm tr) = tr @ evs"
  by (simp add: PrepareRootfs_def call_def Let_def)

lemma PivotRoot_extends: "\<exists>evs. snd (PivotRoot h rm tr) = tr @ evs"
  by (simp add: PivotRoot_def call_def Let_def)

lemma ChrootFallback_extends: "\<exists>evs. snd (ChrootFallback h rm tr) = tr @ evs"
  by (simp add: ChrootFallback_def call_def Let_def)

text \<open>
  C5.  \<open>SwitchRoot\<close> calls \<open>PrepareRootfs\<close> first and \<open>PivotRoot\<close> next.  When \<open>PivotRoot\<close>
  fails it writes the failure to standard error and calls \<open>ChrootFallback\<close>.  It returns an
  error exactly when \<open>PrepareRootfs\<close> fails or both \<open>PivotRoot\<close> and \<open>ChrootFallback\<close> fail;
  a failed \<open>PivotRoot\<close> followed by a successful \<open>ChrootFallback\<close> is a success.
\<close>

theorem SwitchRoot_fallback:
  fixes h rm tr
  defines "prep \<equiv> PrepareRootfs h rm tr"
  defines "piv \<equiv> PivotRoot h rm (snd prep)"
  defines "logged \<equiv> snd piv @
      [stderr_Fprintf (''pivot_root failed (%v), falling back to chroot'' @ newline) (fst piv)]"
  defines "chr \<equiv> ChrootFallback h rm logged"
  shows "(fst (SwitchRoot h rm tr) \<noteq> None \<longleftrightarrow>
            fst prep \<noteq> None \<or> (fst piv \<noteq> None \<and> fst chr \<noteq> None))
       \<and> (fst prep \<noteq> None \<longrightarrow>
            SwitchRoot h rm tr = (WrapError ''prepare rootfs'' (fst prep), snd prep))
       \<and> (fst prep = None \<and> fst piv = None \<longrightarrow> SwitchRoot h rm tr = (None, snd piv))
       \<and> (fst prep = None \<and> fst piv \<noteq> None \<longrightarrow>
            SwitchRoot h rm tr = (WrapError ''chroot fallback'' (fst chr), snd chr))
       \<and> (fst prep = None \<and> fst piv \<noteq> None \<and> fst chr = None \<longrightarrow>
            fst (SwitchRoot h rm tr) = None)
       \<and> (\<exists>evs. snd (SwitchRoot h rm tr) = snd prep @ evs)
       \<and> (fst prep = None \<longrightarrow> (\<exists>evs. snd (SwitchRoot h rm tr) = snd piv @ evs))
       \<and> (fst prep = None \<and> fst piv \<noteq> None \<longrightarrow> (\<exists>evs. snd (SwitchRoot h rm tr) = logged @ evs))"
proof -
  have w: "WrapError op e \<noteq> None \<longleftrightarrow> e \<noteq> None" for op e
    by (cases e) (simp_all add: WrapError_def)
  have sw: "SwitchRoot h rm tr =
     (if fst prep \<noteq> None then (WrapError ''prepare rootfs'' (fst prep), snd prep)
      else if fst piv \<noteq> None then (WrapError ''chroot fallback'' (fst chr), snd chr)
      else (None, snd piv))"
    unfolding SwitchRoot_def prep_def piv_def logged_def chr_def
    by (auto simp: Let_def split_beta WrapError_def)
  obtain e1 where e1: "snd piv = snd prep @ e1"
    unfolding piv_def using PivotRoot_extends by blast
  obtain e2 where e2: "snd chr = logged @ e2"
    unfolding chr_def using ChrootFallback_extends by blast
  have l: "\<exists>evs. snd chr = snd piv @ evs"
    using e2 by (simp add: logged_def)
  have c6: "\<exists>evs. snd (SwitchRoot h rm tr) = snd prep @ evs"
    using sw e1 l by auto
  have c7: "fst prep = None \<longrightarrow> (\<exists>evs. snd (SwitchRoot h rm tr) = snd piv @ evs)"
    using sw l by auto
  have c8: "fst prep = None \<and> fst piv \<noteq> None \<longrightarrow> (\<exists>evs. snd (SwitchRoot h rm tr) = logged @ evs)"
    using sw e2 by auto
  have c1: "fst (SwitchRoot h rm tr) \<noteq> None \<longleftrightarrow>
            fst prep \<noteq> None \<or> (fst piv \<noteq> None \<and> fst chr \<noteq> None)"
    using sw w by auto
  have c2: "fst prep \<noteq> None \<longrightarrow>
            SwitchRoot h rm tr = (WrapError ''prepare rootfs'' (fst prep), snd prep)"
    using sw by simp
  have c3: "fst prep = None \<and> fst piv = None \<longrightarrow> SwitchRoot h rm tr = (None, snd piv)"
    using sw by simp
  have c4: "fst prep = None \<and> fst piv \<noteq> None \<longrightarrow>
            SwitchRoot h rm tr = (WrapError ''chroot fallback'' (fst chr), snd chr)"
    using sw by simp
  have c5: "fst prep = None \<and> fst piv \<noteq> None \<and> fst chr = None \<longrightarrow>
            fst (SwitchRoot h rm tr) = None"
    using c1 by blast
  from c1 c2 c3 c4 c5 c6 c7 c8 show ?thesis
    by blast
qed

theorem SwitchRoot_fallback_witness:
  "SwitchRoot host_pivot_fails rootfs_example [] =
     (None,
      [os_Stat (P ''/bundle/rootfs''),
       os_MkdirAll (Join (P ''/bundle/rootfs'') ''.old_root'') 493,
       unix_PivotRoot (P ''/bundle/rootfs'') (Join (P ''/bundle/rootfs'') ''.old_root''),
       stderr_Fprintf (''pivot_root failed (%v), falling back to chroot'' @ newline)
         (NewError ''pivot_root'' (Some (OSError (Errno EINVAL)))),
       unix_Chdir (P ''/bundle/rootfs''), unix_Chroot (P ''.''), unix_Chdir (P ''/'')])"
proof -
  let ?t1 = "[os_Stat (P ''/bundle/rootfs''),
       os_MkdirAll (Join (P ''/bundle/rootfs'') ''.old_root'') 493]"
  let ?t2 = "?t1 @ [unix_PivotRoot (P ''/bundle/rootfs'') (Join (P ''/bundle/rootfs'') ''.old_root'')]"
  let ?t3 = "?t2 @ [stderr_Fprintf (''pivot_root failed (%v), falling back to chroot'' @ newline)
         (NewError ''pivot_root'' (Some (OSError (Errno EINVAL))))]"
  have p: "PrepareRootfs host_pivot_fails rootfs_example [] = (None, ?t1)"
    by (simp add: PrepareRootfs_def call_def host_pivot_fails_def rootfs_example_def IsNotExist_def)
  have v: "PivotRoot host_pivot_fails rootfs_example ?t1 =
      (NewError ''pivot_root'' (Some (OSError (Errno EINVAL))), ?t2)"
    by (simp add: PivotRoot_def call_def host_pivot_fails_def rootfs_example_def)
  have c: "ChrootFallback host_pivot_fails rootfs_example ?t3 =
      (None, ?t3 @ [unix_Chdir (P ''/bundle/rootfs''), unix_Chroot (P ''.''), unix_Chdir (P ''/'')])"
    by (simp add: ChrootFallback_def call_def host_pivot_fails_def rootfs_example_def)
  show ?thesis
    using SwitchRoot_fallback [of host_pivot_fails rootfs_example "[]"] p v c
    by (simp add: WrapError_def NewError_def)
qed

text \<open>
  C6.  When the rootfs path does not exist (\<open>os.Stat\<close> reports \<open>ENOENT\<close>), \<open>SwitchRoot\<close>
  returns the error of \<open>PrepareRootfs\<close>, "rootfs path does not exist", and the only call
  it made is that \<open>os.Stat\<close>: no directory is created, nothing is mounted, and neither
  \<open>pivot_root\<close> nor \<open>chroot\<close> is called.
\<close>

theorem SwitchRoot_missing_rootfs:
  assumes "fails h tr (os_Stat (P (RootfsPath rm))) = Some (Errno ENOENT)"
  shows "\<exists>evs. SwitchRoot h rm tr =
           (WrapError ''prepare rootfs''
              (NewPathError ''prepare rootfs'' (P (RootfsPath rm))
                 (Some (ErrorString ''rootfs path does not exist''))), tr @ evs)
         \<and> fst (SwitchRoot h rm tr) \<noteq> None
         \<and> evs = [os_Stat (P (RootfsPath rm))]
         \<and> (\<forall>e \<in> set evs. \<not> is_root_switch_call e)"
  using assms
  by (simp add: SwitchRoot_def PrepareRootfs_def call_def IsNotExist_def NewPathError_def WrapError_def)


theorem SwitchRoot_missing_rootfs_witness:
  "SwitchRoot host_no_rootfs rootfs_example [] =
     (Some (Wrapped ''prepare rootfs''
        (ContainerError ''prepare rootfs'' (P ''/bundle/rootfs'')
           (Some (ErrorString ''rootfs path does not exist'')))),
      [os_Stat (P ''/bundle/rootfs'')])"
proof -
  have f: "fails host_no_rootfs [] (os_Stat (P (RootfsPath rootfs_example))) = Some (Errno ENOENT)"
    by (simp add: host_no_rootfs_def)
  show ?thesis
    using SwitchRoot_missing_rootfs [OF f]
    by (simp add: WrapError_def NewPathError_def rootfs_example_def)
qed

section \<open>Properties of internal/cg\<close>

subsection \<open>ApplyLimits\<close>

lemma setCPULimit_trace:
  "snd (setCPULimit h cm q p tr) =
     tr @ [os_WriteFile (Join (P (CgroupPath cm)) ''cpu.max'')
             (FormatInt q @ '' '' @ FormatInt (if p = 0 then 100000 else p)) 420]"
  by (simp add: setCPULimit_def call_def Let_def defaultCPUPeriod_def)

lemma setMemoryLimit_trace:
  "snd (setMemoryLimit h cm l tr) =
     tr @ [os_WriteFile (Join (P (CgroupPath cm)) ''memory.max'') (FormatInt l) 420]"
  by (simp add: setMemoryLimit_def call_def Let_def)

lemma setPidsLimit_trace:
  "snd (setPidsLimit h cm l tr) =
     tr @ [os_WriteFile (Join (P (CgroupPath cm)) ''pids.max'') (FormatInt l) 420]"
  by (simp add: setPidsLimit_def call_def Let_def)

lemma setCPULimit_event:
  "snd (setCPULimit h cm (CPUQuota l) (CPUPeriod l) tr) = tr @ [cpu_write cm l]"
  by (simp add: setCPULimit_trace cpu_write_def)

lemma setMemoryLimit_event:
  "snd (setMemoryLimit h cm (Memory l) tr) = tr @ [memory_write cm l]"
  by (simp add: setMemoryLimit_trace memory_write_def)

lemma setPidsLimit_event:
  "snd (setPidsLimit h cm (Pids l) tr) = tr @ [pids_write cm l]"
  by (simp add: setPidsLimit_trace pids_write_def)

lemma WrapError_None [simp]: "WrapError op e = None \<longleftrightarrow> e = None"
  by (cases e) (simp_all add: WrapError_def)

lemma ApplyLimits_trace:
  "\<exists>evs. snd (ApplyLimits h cm limits tr) = tr @ evs \<and>
     set evs \<subseteq> (if CPUQuota limits > 0 then {cpu_write cm limits} else {}) \<union>
               (if Memory limits > 0 then {memory_write cm limits} else {}) \<union>
               (if Pids limits > 0 then {pids_write cm limits} else {}) \<and>
     (CPUQuota limits > 0 \<longrightarrow> take 1 evs = [cpu_write cm limits]) \<and>
     (fst (ApplyLimits h cm limits tr) = None \<longrightarrow>
        evs = (if CPUQuota limits > 0 then [cpu_write cm limits] else []) @
              (if Memory limits > 0 then [memory_write cm limits] else []) @
              (if Pids limits > 0 then [pids_write cm limits] else []))"
proof -
  define E1 where "E1 = (if CPUQuota limits > 0 then [cpu_write cm limits] else [])"
  define E2 where "E2 = (if Memory limits > 0 then [memory_write cm limits] else [])"
  define E3 where "E3 = (if Pids limits > 0 then [pids_write cm limits] else [])"
  define s1 where "s1 = (if CPUQuota limits > 0
     then setCPULimit h cm (CPUQuota limits) (CPUPeriod limits) tr else (None, tr))"
  define s2 where "s2 = (if Memory limits > 0
     then setMemoryLimit h cm (Memory limits) (snd s1) else (None, snd s1))"
  define s3 where "s3 = (if Pids limits > 0
     then setPidsLimit h cm (Pids limits) (snd s2) else (None, snd s2))"
  have t1: "snd s1 = tr @ E1"
    by (simp add: s1_def E1_def setCPULimit_event)
  have t2: "snd s2 = tr @ E1 @ E2"
    by (simp add: s2_def E2_def setMemoryLimit_event t1)
  have t3: "snd s3 = tr @ E1 @ E2 @ E3"
    by (simp add: s3_def E3_def setPidsLimit_event t2)
  have A: "ApplyLimits h cm limits tr =
     (if fst s1 \<noteq> None then (WrapError ''set CPU limit'' (fst s1), snd s1)
      else if fst s2 \<noteq> None then (WrapError ''set memory limit'' (fst s2), snd s2)
      else if fst s3 \<noteq> None then (WrapError ''set pids limit'' (fst s3), snd s3)
      else (None, snd s3))"
    unfolding ApplyLimits_def s1_def [symmetric]
    unfolding Let_def split_beta s2_def [symmetric]
    unfolding s3_def [symmetric]
    by simp
  have sub: "set E1 \<subseteq> (if CPUQuota limits > 0 then {cpu_write cm limits} else {})"
    "set E2 \<subseteq> (if Memory limits > 0 then {memory_write cm limits} else {})"
    "set E3 \<subseteq> (if Pids limits > 0 then {pids_write cm limits} else {})"
    by (simp_all add: E1_def E2_def E3_def)
  have hd1: "CPUQuota limits > 0 \<Longrightarrow> take 1 (E1 @ xs) = [cpu_write cm limits]" for xs
    by (simp add: E1_def)
  consider (a) "fst s1 \<noteq> None" | (b) "fst s1 = None" "fst s2 \<noteq> None"
    | (c) "fst s1 = None" "fst s2 = None"
    by blast
  then show ?thesis
  proof cases
    case a
    then have "snd (ApplyLimits h cm limits tr) = tr @ E1" "fst (ApplyLimits h cm limits tr) \<noteq> None"
      using A t1 by simp_all
    then show ?thesis
      using sub hd1 [of "[]"] by (intro exI [of _ E1]) auto
  next
    case b
    then have "snd (ApplyLimits h cm limits tr) = tr @ (E1 @ E2)" "fst (ApplyLimits h cm limits tr) \<noteq> None"
      using A t2 by simp_all
    then show ?thesis
      using sub hd1 [of E2] by (intro exI [of _ "E1 @ E2"]) auto
  next
    case c
    then have "snd (ApplyLimits h cm limits tr) = tr @ (E1 @ E2 @ E3)"
      using A t3 by simp
    then show ?thesis
      using sub hd1 [of "E2 @ E3"] unfolding E1_def [symmetric] E2_def [symmetric] E3_def [symmetric]
      by (intro exI [of _ "E1 @ E2 @ E3"]) auto
  qed
qed


lemma FormatInt_5: "FormatInt 5 = ''5''"
  by code_simp

text \<open>
  C7.  Every file \<open>ApplyLimits\<close> writes is one of \<open>cpu.max\<close>, \<open>memory.max\<close> and \<open>pids.max\<close>;
  \<open>cpu.max\<close> is written only if the CPU quota is positive, and then with the text
  "quota period", where the period is 100000 when the configured period is zero;
  \<open>memory.max\<close> is written only if the memory limit is positive, \<open>pids.max\<close> only if the
  pids limit is positive.  With quota 0, memory 0 and pids 5 the only write is "5" to
  \<open>pids.max\<close>.
\<close>

theorem ApplyLimits_writes_only_positive_limits:
  "\<exists>evs. snd (ApplyLimits h cm limits tr) = tr @ evs
     \<and> (\<forall>e \<in> set evs.
           (e = cpu_write cm limits \<and> CPUQuota limits > 0) \<or>
           (e = memory_write cm limits \<and> Memory limits > 0) \<or>
           (e = pids_write cm limits \<and> Pids limits > 0))
     \<and> (\<forall>v m. os_WriteFile (Join (P (CgroupPath cm)) ''cpu.max'') v m \<in> set evs \<longrightarrow>
           CPUQuota limits > 0 \<and>
           v = FormatInt (CPUQuota limits) @ '' '' @
               FormatInt (if CPUPeriod limits = 0 then 100000 else CPUPeriod limits))
     \<and> (\<forall>v m. os_WriteFile (Join (P (CgroupPath cm)) ''memory.max'') v m \<in> set evs \<longrightarrow>
           Memory limits > 0)
     \<and> (\<forall>v m. os_WriteFile (Join (P (CgroupPath cm)) ''pids.max'') v m \<in> set evs \<longrightarrow>
           Pids limits > 0)
     \<and> (CPUQuota limits > 0 \<longrightarrow> take 1 evs = [cpu_write cm limits])
     \<and> (CPUQuota limits = 0 \<and> Memory limits = 0 \<and> Pids limits = 5 \<longrightarrow>
           evs = [os_WriteFile (Join (P (CgroupPath cm)) ''pids.max'') ''5'' 420])"
proof -
  obtain evs where all: "snd (ApplyLimits h cm limits tr) = tr @ evs
    \<and> set evs \<subseteq> (if CPUQuota limits > 0 then {cpu_write cm limits} else {}) \<union>
               (if Memory limits > 0 then {memory_write cm limits} else {}) \<union>
               (if Pids limits > 0 then {pids_write cm limits} else {})
    \<and> (CPUQuota limits > 0 \<longrightarrow> take 1 evs = [cpu_write cm limits])
    \<and> (fst (ApplyLimits h cm limits tr) = None \<longrightarrow>
        evs = (if CPUQuota limits > 0 then [cpu_write cm limits] else []) @
              (if Memory limits > 0 then [memory_write cm limits] else []) @
              (if Pids limits > 0 then [pids_write cm limits] else []))"
    using ApplyLimits_trace [of h cm limits tr] by (erule exE)
  have tr: "snd (ApplyLimits h cm limits tr) = tr @ evs"
    and sub: "set evs \<subseteq> (if CPUQuota limits > 0 then {cpu_write cm limits} else {}) \<union>
               (if Memory limits > 0 then {memory_write cm limits} else {}) \<union>
               (if Pids limits > 0 then {pids_write cm limits} else {})"
    and first: "CPUQuota limits > 0 \<longrightarrow> take 1 evs = [cpu_write cm limits]"
    using all by blast+
  have one: "(e = cpu_write cm limits \<and> CPUQuota limits > 0) \<or>
           (e = memory_write cm limits \<and> Memory limits > 0) \<or>
           (e = pids_write cm limits \<and> Pids limits > 0)" if "e \<in> set evs" for e
    using that sub by (auto split: if_splits)
  have c: "CPUQuota limits > 0 \<and>
           v = FormatInt (CPUQuota limits) @ '' '' @
               FormatInt (if CPUPeriod limits = 0 then 100000 else CPUPeriod limits)"
    if "os_WriteFile (Join (P (CgroupPath cm)) ''cpu.max'') v m \<in> set evs" for v m
    using one [OF that] by (simp add: cpu_write_def memory_write_def pids_write_def)
  have m: "Memory limits > 0"
    if "os_WriteFile (Join (P (CgroupPath cm)) ''memory.max'') v m \<in> set evs" for v m
    using one [OF that] by (simp add: cpu_write_def memory_write_def pids_write_def)
  have p: "Pids limits > 0"
    if "os_WriteFile (Join (P (CgroupPath cm)) ''pids.max'') v m \<in> set evs" for v m
    using one [OF that] by (simp add: cpu_write_def memory_write_def pids_write_def)
  have five: "evs = [os_WriteFile (Join (P (CgroupPath cm)) ''pids.max'') ''5'' 420]"
    if z: "CPUQuota limits = 0 \<and> Memory limits = 0 \<and> Pids limits = 5"
  proof -
    have "snd (ApplyLimits h cm limits tr) = tr @ [pids_write cm limits]"
      using z setPidsLimit_event [of h cm limits tr] by (simp add: ApplyLimits_def split_beta)
    then have "evs = [pids_write cm limits]"
      using tr by simp
    then show ?thesis
      using z by (simp add: pids_write_def FormatInt_5)
  qed
  from tr one c m p first five show ?thesis
    by blast
qed


theorem ApplyLimits_writes_only_positive_limits_witness:
  "snd (ApplyLimits (host_status 0) cgroup_example
          \<lparr>CPUQuota = 0, CPUPeriod = 0, Memory = 0, Pids = 5\<rparr> []) =
     [os_WriteFile (Join (P ''/sys/fs/cgroup/gomini/abc123'') ''pids.max'') ''5'' 420]"
  using ApplyLimits_writes_only_positive_limits
          [of "host_status 0" cgroup_example "\<lparr>CPUQuota = 0, CPUPeriod = 0, Memory = 0, Pids = 5\<rparr>" "[]"]
  by (auto simp: cgroup_example_def)

subsection \<open>GetStats\<close>

lemma readCPUStat_fail:
  "fails h tr (os_ReadFile (Join (P (CgroupPath cm)) ''cpu.stat'')) \<noteq> None \<Longrightarrow>
     snd (fst (readCPUStat h L cm tr)) \<noteq> None"
  by (auto simp: readCPUStat_def call_def Let_def)

lemma readMemoryStat_fail:
  "fails h tr (os_ReadFile (Join (P (CgroupPath cm)) ''memory.current'')) \<noteq> None \<Longrightarrow>
     snd (fst (readMemoryStat h L cm tr)) \<noteq> None"
  by (auto simp: readMemoryStat_def call_def Let_def)

lemma readPidsStat_fail:
  "fails h tr (os_ReadFile (Join (P (CgroupPath cm)) ''pids.current'')) \<noteq> None \<Longrightarrow>
     snd (fst (readPidsStat h L cm tr)) \<noteq> None"
  by (auto simp: readPidsStat_def call_def Let_def)

text \<open>
  C8.  \<open>GetStats\<close> never returns an error.  Each of the three fields of its result is the
  value its reader returned, or zero when the reader returned an error, which is then
  written to standard error; a reader returns an error when its file cannot be read.
\<close>

theorem GetStats_never_fails:
  fixes h L cm tr
  defines "c \<equiv> readCPUStat h L cm tr"
  defines "m \<equiv> readMemoryStat h L cm (warn (''Warning: failed to read CPU stats: %v'' @ newline) c)"
  defines "p \<equiv> readPidsStat h L cm (warn (''Warning: failed to read memory stats: %v'' @ newline) m)"
  defines "stats \<equiv> fst (fst (GetStats h L cm tr))"
  shows "snd (fst (GetStats h L cm tr)) = None
       \<and> CPUUsage stats = (if snd (fst c) \<noteq> None then 0 else fst (fst c))
       \<and> MemoryUsage stats = (if snd (fst m) \<noteq> None then 0 else fst (fst m))
       \<and> PidsCount stats = (if snd (fst p) \<noteq> None then 0 else fst (fst p))
       \<and> snd (GetStats h L cm tr) = warn (''Warning: failed to read pids stats: %v'' @ newline) p
       \<and> (fails h tr (os_ReadFile (Join (P (CgroupPath cm)) ''cpu.stat'')) \<noteq> None \<longrightarrow>
            CPUUsage stats = 0)
       \<and> (fails h (warn (''Warning: failed to read CPU stats: %v'' @ newline) c)
              (os_ReadFile (Join (P (CgroupPath cm)) ''memory.current'')) \<noteq> None \<longrightarrow>
            MemoryUsage stats = 0)
       \<and> (fails h (warn (''Warning: failed to read memory stats: %v'' @ newline) m)
              (os_ReadFile (Join (P (CgroupPath cm)) ''pids.current'')) \<noteq> None \<longrightarrow>
            PidsCount stats = 0)"
proof -
  define f1 where "f1 = ''Warning: failed to read CPU stats: %v'' @ newline"
  define f2 where "f2 = ''Warning: failed to read memory stats: %v'' @ newline"
  define f3 where "f3 = ''Warning: failed to read pids stats: %v'' @ newline"
  have G: "GetStats h L cm tr =
     ((\<lparr>CPUUsage = (if snd (fst c) \<noteq> None then 0 else fst (fst c)),
        MemoryUsage = (if snd (fst m) \<noteq> None then 0 else fst (fst m)),
        PidsCount = (if snd (fst p) \<noteq> None then 0 else fst (fst p))\<rparr>, None), warn f3 p)"
    unfolding GetStats_def p_def m_def f1_def [symmetric] f2_def [symmetric] f3_def [symmetric]
    unfolding c_def [symmetric]
    unfolding Let_def split_beta
    by (simp add: warn_def)
  have c1: "snd (fst c) \<noteq> None"
    if "fails h tr (os_ReadFile (Join (P (CgroupPath cm)) ''cpu.stat'')) \<noteq> None"
    using that readCPUStat_fail unfolding c_def by blast
  have m1: "snd (fst m) \<noteq> None"
    if "fails h (warn f1 c) (os_ReadFile (Join (P (CgroupPath cm)) ''memory.current'')) \<noteq> None"
    using that readMemoryStat_fail unfolding m_def f1_def by blast
  have p1: "snd (fst p) \<noteq> None"
    if "fails h (warn f2 m) (os_ReadFile (Join (P (CgroupPath cm)) ''pids.current'')) \<noteq> None"
    using that readPidsStat_fail unfolding p_def f2_def by blast
  show ?thesis
    unfolding stats_def G f1_def [symmetric] f2_def [symmetric] f3_def [symmetric]
    using c1 m1 p1 by simp
qed


text \<open>The example: \<open>cpu.stat\<close> is unreadable, the other two files hold 4096 and 3.\<close>

lemma example_ParseInt_4096: "example_ParseInt ''4096'' 10 64 = (4096, None)"
  by (simp add: example_ParseInt_def)

lemma example_ParseInt_3: "example_ParseInt ''3'' 10 0 = (3, None)"
  by (simp add: example_ParseInt_def)

lemma example_TrimSpace: "strings_TrimSpace example_lib (''4096'' @ newline) = ''4096''"
    "strings_TrimSpace example_lib (''3'' @ newline) = ''3''"
    by (simp_all add: example_lib_def newline_def ascii_space_def)


lemma example_readCPUStat: "readCPUStat host_cpu_unreadable example_lib cgroup_example [] =
   ((0, Some (OSError (Errno EACCES))), [os_ReadFile (Join (P ''/sys/fs/cgroup/gomini/abc123'') ''cpu.stat'')])"
  by (simp add: readCPUStat_def call_def host_cpu_unreadable_def cgroup_example_def)

lemma example_contents: "file_contents host_cpu_unreadable t (Join (P (CgroupPath cgroup_example)) ''memory.current'') = ''4096'' @ newline"
  "file_contents host_cpu_unreadable t (Join (P (CgroupPath cgroup_example)) ''pids.current'') = ''3'' @ newline"
  by (simp_all add: host_cpu_unreadable_def cgroup_example_def)

lemma example_readable: "fails host_cpu_unreadable t (os_ReadFile (Join (P (CgroupPath cgroup_example)) ''memory.current'')) = None"
  "fails host_cpu_unreadable t (os_ReadFile (Join (P (CgroupPath cgroup_example)) ''pids.current'')) = None"
  by (simp_all add: host_cpu_unreadable_def cgroup_example_def)

lemma example_lib_parsers: "strconv_ParseInt example_lib = example_ParseInt"
  "strconv_Atoi example_lib = (\<lambda>s. example_ParseInt s 10 0)"
  by (simp_all add: example_lib_def)

lemma example_readMemoryStat: "fst (readMemoryStat host_cpu_unreadable example_lib cgroup_example t) = (4096, None)"
  unfolding readMemoryStat_def Let_def call_def example_contents example_readable example_TrimSpace
    example_lib_parsers example_ParseInt_4096
  by simp

lemma example_readPidsStat: "fst (readPidsStat host_cpu_unreadable example_lib cgroup_example t) = (3, None)"
  unfolding readPidsStat_def Let_def call_def example_contents example_readable example_TrimSpace
    example_lib_parsers example_ParseInt_3
  by simp


theorem GetStats_never_fails_witness:
  "snd (fst (GetStats host_cpu_unreadable example_lib cgroup_example [])) = None
   \<and> CPUUsage (fst (fst (GetStats host_cpu_unreadable example_lib cgroup_example []))) = 0
   \<and> MemoryUsage (fst (fst (GetStats host_cpu_unreadable example_lib cgroup_example []))) = 4096
   \<and> PidsCount (fst (fst (GetStats host_cpu_unreadable example_lib cgroup_example []))) = 3"
proof -
  note T = GetStats_never_fails [of host_cpu_unreadable example_lib cgroup_example "[]"]
  have a: "snd (fst (GetStats host_cpu_unreadable example_lib cgroup_example [])) = None"
    using T [THEN conjunct1] .
  have b: "CPUUsage (fst (fst (GetStats host_cpu_unreadable example_lib cgroup_example []))) = 0"
    using T [THEN conjunct2, THEN conjunct1] by (simp only: example_readCPUStat) simp
  have d: "MemoryUsage (fst (fst (GetStats host_cpu_unreadable example_lib cgroup_example []))) = 4096"
    using T [THEN conjunct2, THEN conjunct2, THEN conjunct1] by (simp only: example_readMemoryStat) simp
  have e: "PidsCount (fst (fst (GetStats host_cpu_unreadable example_lib cgroup_example []))) = 3"
    using T [THEN conjunct2, THEN conjunct2, THEN conjunct2, THEN conjunct1] by (simp only: example_readPidsStat) simp
  from a b d e show ?thesis
    by (intro conjI)
qed

section \<open>Properties of internal/proc\<close>

lemma Cleanup_trace: "snd (Cleanup h cm tr) = tr @ [os_RemoveAll (P (CgroupPath cm))]"
  by (simp add: Cleanup_def call_def)

lemma AddProcess_trace:
  "snd (AddProcess h cm pid tr) =
     tr @ [os_WriteFile (Join (P (CgroupPath cm)) ''cgroup.procs'') (FormatInt pid) 420]"
  by (simp add: AddProcess_def call_def Let_def)

lemma json_Marshal_no_error: "snd (json_Marshal v) = None"
  by (cases v) (simp_all add: json_Marshal_def)

text \<open>
  C9.  On the path through \<open>runWithPIDNamespace\<close>, when the pipe was created, the child was
  started and a cgroup manager is configured, the call that removes the cgroup follows the
  wait for the child at once, whether the wait reports success or an error, and comes
  before \<open>runWithPIDNamespace\<close> returns; the function returns an error exactly when the
  wait failed.
\<close>

theorem runWithPIDNamespace_cleans_up:
  fixes h cp nsConfig tr
  defines "cmd \<equiv> containerInitCmd h cp nsConfig (fst (json_Marshal (Args cp)))"
  assumes pipe: "fails h tr os_Pipe = None"
    and start: "fails h (tr @ [os_Pipe]) (cmd_Start cmd) = None"
    and cg: "CgroupManager cp = Some cm"
  shows "\<exists>pre post.
           snd (runWithPIDNamespace h cp nsConfig tr) =
             pre @ [cmd_Wait, os_RemoveAll (P (CgroupPath cm))] @ post
         \<and> (\<exists>mid. pre = tr @ [os_Pipe, cmd_Start cmd] @ mid \<and> cmd_Wait \<notin> set mid)
         \<and> cmd_Wait \<notin> set post \<and> os_RemoveAll (P (CgroupPath cm)) \<notin> set post
         \<and> (fst (runWithPIDNamespace h cp nsConfig tr) = None \<longleftrightarrow> fails h pre cmd_Wait = None)
         \<and> (fails h pre cmd_Wait \<noteq> None \<longrightarrow>
               fst (runWithPIDNamespace h cp nsConfig tr) =
                 NewError ''wait for container process'' (map_option OSError (fails h pre cmd_Wait)))"
proof -
  define f1 where "f1 = ''Warning: failed to add process to cgroup: %v'' @ newline"
  define f2 where "f2 = ''Warning: failed to cleanup cgroup: %v'' @ newline"
  define cw where "cw = file_Close ''w''"
  define cr where "cr = file_Close ''r''"
  define wr where "wr = (\<lambda>pid. os_WriteFile (Join (P (CgroupPath cm)) ''cgroup.procs'') (FormatInt pid) 420)"
  define rm where "rm = os_RemoveAll (P (CgroupPath cm))"
  define t1 where "t1 = tr @ [os_Pipe, cmd_Start cmd, cw]"
  define a where "a = AddProcess h cm (child_pid h t1) t1"
  define mid where "mid = [cw, wr (child_pid h t1)] @
      (if fst a \<noteq> None then [stderr_Fprintf f1 (fst a)] else [])"
  define pre where "pre = tr @ [os_Pipe, cmd_Start cmd] @ mid"
  define w where "w = fails h pre cmd_Wait"
  define c where "c = Cleanup h cm (pre @ [cmd_Wait])"
  define post where "post =
      (if w \<noteq> None then [cr]
       else (if fst c \<noteq> None then [stderr_Fprintf f2 (fst c)] else []) @ [cr])"
  have At: "snd (AddProcess h cm pid t) = t @ [wr pid]" for pid t
    by (simp add: AddProcess_trace wr_def)
  have Ct: "snd (Cleanup h cm t) = t @ [rm]" for t
    by (simp add: Cleanup_trace rm_def)
  obtain j where J: "json_Marshal (Args cp) = (j, None)"
    using json_Marshal_no_error [of "Args cp"] by (metis prod.collapse)
  have cmd: "containerInitCmd h cp nsConfig j = cmd"
    by (simp add: cmd_def J)
  have R: "runWithPIDNamespace h cp nsConfig tr =
      (if w \<noteq> None then NewError ''wait for container process'' (map_option OSError w) else None,
       pre @ [cmd_Wait, rm] @ post)"
    unfolding runWithPIDNamespace_def f1_def [symmetric] f2_def [symmetric] cw_def [symmetric]
      cr_def [symmetric]
    using pipe start
    by (auto simp: J cmd cg call_def Let_def split_beta At Ct
          post_def w_def c_def pre_def mid_def a_def t1_def)
  have w_no: "cmd_Wait \<notin> set mid" "cmd_Wait \<notin> set post" "rm \<notin> set post"
    by (auto simp: mid_def post_def cw_def cr_def wr_def rm_def)
  have e: "NewError op x \<noteq> None" for op x
    by (simp add: NewError_def)
  have pm: "\<exists>mid. pre = tr @ [os_Pipe, cmd_Start cmd] @ mid \<and> cmd_Wait \<notin> set mid"
    using w_no(1) pre_def by blast
  have s1: "snd (runWithPIDNamespace h cp nsConfig tr) =
             pre @ [cmd_Wait, os_RemoveAll (P (CgroupPath cm))] @ post"
    by (simp add: R rm_def)
  have s2: "fst (runWithPIDNamespace h cp nsConfig tr) = None \<longleftrightarrow> fails h pre cmd_Wait = None"
    by (auto simp: R w_def NewError_def)
  have s3: "fails h pre cmd_Wait \<noteq> None \<longrightarrow>
               fst (runWithPIDNamespace h cp nsConfig tr) =
                 NewError ''wait for container process'' (map_option OSError (fails h pre cmd_Wait))"
    by (simp add: R w_def)
  have s4: "cmd_Wait \<notin> set post" "os_RemoveAll (P (CgroupPath cm)) \<notin> set post"
    using w_no by (simp_all add: rm_def)
  show ?thesis
    by (rule exI [of _ pre], rule exI [of _ post]) (use s1 pm s4 s2 s3 in blast)
qed


theorem runWithPIDNamespace_cleans_up_witness:
  "(\<exists>pre post. snd (runWithPIDNamespace host_wait_fails container_example namespaces_example []) =
       pre @ [cmd_Wait, os_RemoveAll (P ''/sys/fs/cgroup/gomini/abc123'')] @ post)
   \<and> fst (runWithPIDNamespace host_wait_fails container_example namespaces_example []) \<noteq> None
   \<and> (\<exists>pre post. snd (runWithPIDNamespace (host_status 0) container_example namespaces_example []) =
       pre @ [cmd_Wait, os_RemoveAll (P ''/sys/fs/cgroup/gomini/abc123'')] @ post)
   \<and> fst (runWithPIDNamespace (host_status 0) container_example namespaces_example []) = None"
proof -
  have f1: "fails host_wait_fails t os_Pipe = None" "fails host_wait_fails t (cmd_Start c) = None"
    "fails host_wait_fails t cmd_Wait \<noteq> None" for t c
    by (simp_all add: host_wait_fails_def)
  have f2: "fails (host_status 0) t c = None" for t c
    by (simp add: host_status_def)
  have cg: "CgroupManager container_example = Some cgroup_example"
    "CgroupPath cgroup_example = ''/sys/fs/cgroup/gomini/abc123''"
    by (simp_all add: container_example_def cgroup_example_def)
  show ?thesis
    using runWithPIDNamespace_cleans_up
            [of host_wait_fails "[]" container_example namespaces_example cgroup_example,
             OF f1(1) f1(2) cg(1)]
          runWithPIDNamespace_cleans_up
            [of "host_status 0" "[]" container_example namespaces_example cgroup_example,
             OF f2 f2 cg(1)]
    unfolding cg(2)
    by (metis f1(3) f2)
qed

text \<open>
  C10.  With an empty argument list \<open>execProcess\<close> returns the error "no command
  specified" and makes no call.  Otherwise it calls \<open>syscall.Exec\<close> once, with the first
  argument as the binary, and the environment it passes is the configured one unless that
  is nil: a nil environment is replaced by the default \<open>PATH\<close>, an empty one is passed as
  it is.
\<close>

theorem execProcess_environment:
  "(len (Args cp) = 0 \<longrightarrow>
      execProcess h cp tr =
        (Returned (NewSimpleError ''exec process'' ''no command specified''), tr))
   \<and> (len (Args cp) > 0 \<longrightarrow>
        (\<exists>env. snd (execProcess h cp tr) = tr @ [syscall_Exec (hd (elems (Args cp))) (Args cp) env]
           \<and> (Env cp = None \<longrightarrow> env = Some defaultEnv)
           \<and> (Env cp \<noteq> None \<longrightarrow> env = Env cp)
           \<and> (Env cp = Some [] \<longrightarrow> env = Some [])
           \<and> (env \<noteq> Env cp \<longleftrightarrow> Env cp = None)))"
  by (cases "Env cp"; cases "elems (Args cp)")
     (simp_all add: execProcess_def call_def len_def Let_def)

theorem execProcess_environment_witness:
  "execProcess (host_status 0) container_example [] =
     (ImageReplaced, [syscall_Exec ''sh'' (Some [''sh'', ''-c'', ''echo hi there'']) (Some [])])
   \<and> snd (execProcess (host_status 0) (container_example\<lparr>Env := None\<rparr>) []) =
     [syscall_Exec ''sh'' (Some [''sh'', ''-c'', ''echo hi there''])
        (Some [''PATH=/usr/local/sbin:/usr/local/bin:/usr/sbin:/usr/bin:/sbin:/bin''])]
   \<and> execProcess (host_status 0) (container_example\<lparr>Args := Some []\<rparr>) [] =
     (Returned (NewSimpleError ''exec process'' ''no command specified''), [])
   \<and> execProcess (host_status 0) (container_example\<lparr>Args := None\<rparr>) [] =
     (Returned (NewSimpleError ''exec process'' ''no command specified''), [])"
proof -
  have a: "fst (execProcess (host_status 0) container_example []) = ImageReplaced"
    by (simp add: execProcess_def container_example_def len_def elems_def call_def host_status_def)
  show ?thesis
    using a execProcess_environment [of container_example "host_status 0" "[]"]
      execProcess_environment [of "container_example\<lparr>Env := None\<rparr>" "host_status 0" "[]"]
      execProcess_environment [of "container_example\<lparr>Args := Some []\<rparr>" "host_status 0" "[]"]
      execProcess_environment [of "container_example\<lparr>Args := None\<rparr>" "host_status 0" "[]"]
    by (auto simp: container_example_def len_def elems_def defaultEnv_def prod_eq_iff)
qed

section \<open>Properties of cmd/gomini\<close>

text \<open>
  C2 (as amended).  The value of \<open>--cmd\<close>, when given, becomes the only element of the final
  argument list, whatever the positional arguments and the bundle say; without \<open>--cmd\<close>
  the positional arguments are used when there are any, and the arguments of the bundle's
  process otherwise.
\<close>

theorem finalArgs_precedence:
  "(cmd \<noteq> [] \<longrightarrow> finalArgs cmd positionalArgs configArgs = Some [cmd])
   \<and> (cmd = [] \<and> len positionalArgs > 0 \<longrightarrow> finalArgs cmd positionalArgs configArgs = positionalArgs)
   \<and> (cmd = [] \<and> len positionalArgs = 0 \<longrightarrow> finalArgs cmd positionalArgs configArgs = configArgs)"
  by (simp add: finalArgs_def)

theorem finalArgs_precedence_witness:
  "finalArgs ''/bin/echo hi'' (Some [''/bin/sh'', ''-c'', ''true'']) (Some [''/bin/sh'']) = Some [''/bin/echo hi'']
   \<and> finalArgs [] (Some [''/bin/sh'', ''-c'', ''true'']) (Some [''/bin/sh'']) = Some [''/bin/sh'', ''-c'', ''true'']
   \<and> finalArgs [] (Some []) (Some [''/bin/sh'']) = Some [''/bin/sh'']
   \<and> finalArgs [] None (Some [''/bin/sh'']) = Some [''/bin/sh'']"
  using finalArgs_precedence [of "''/bin/echo hi''" "Some [''/bin/sh'', ''-c'', ''true'']" "Some [''/bin/sh'']"]
    finalArgs_precedence [of "[]" "Some [''/bin/sh'', ''-c'', ''true'']" "Some [''/bin/sh'']"]
    finalArgs_precedence [of "[]" "Some []" "Some [''/bin/sh'']"]
    finalArgs_precedence [of "[]" "None" "Some [''/bin/sh'']"]
  by (simp add: len_def elems_def)

text \<open>
  The value of \<open>--cmd\<close> is not split at spaces: \<open>/bin/echo hi\<close> stays one argument.  And
  when the command line has \<open>--cmd /bin/echo hi\<close>, the flag's value is \<open>/bin/echo\<close>, \<open>hi\<close> is
  a positional argument, and the final argument list is \<open>/bin/echo\<close> alone.
\<close>

theorem finalArgs_cmd_not_split_counterexample:
  "finalArgs ''/bin/echo hi'' (Some [''/bin/sh'', ''-c'', ''true'']) (Some [''/bin/sh''])
     \<noteq> Some [''/bin/echo'', ''hi'']
   \<and> finalArgs ''/bin/echo'' (Some [''hi'']) (Some [''/bin/sh'']) \<noteq> Some [''/bin/echo'', ''hi'']"
  by (simp add: finalArgs_def)


end
